theory Spec2Isabelle
  imports Main "HOL-Library.Sublist"
begin

section \<open>Strings and paths\<close>

text \<open>
  Python's \<^verbatim>\<open>str.startswith\<close> and \<^verbatim>\<open>str.endswith\<close>: the argument is a
  prefix, respectively a suffix, of the receiver.
\<close>

definition startswith :: "string \<Rightarrow> string \<Rightarrow> bool" where
  "startswith s p = prefix p s"

definition endswith :: "string \<Rightarrow> string \<Rightarrow> bool" where
  "endswith s x = suffix x s"

definition sep :: char where
  "sep = CHR ''/''"

definition LF :: char where
  "LF = CHR 0x0A"

definition CR :: char where
  "CR = CHR 0x0D"

text \<open>
  A Python string is represented by the bytes it stands for under the file-system
  encoding (UTF-8 with the \<^verbatim>\<open>surrogateescape\<close> handler): this is how names from the
  command line and from \<^verbatim>\<open>os.listdir\<close> reach the scripts, and every byte sequence is
  such a string. A string can be encoded strictly (as writing to a text file does), and a
  byte sequence decoded strictly (as \<^verbatim>\<open>bytes.decode('utf8')\<close> and reading a text file
  do), exactly when the bytes are well-formed UTF-8: no stray continuation byte, no
  truncated or overlong sequence, no surrogate, nothing above U+10FFFF. (The scripts put
  ASCII text between any two strings they concatenate, so that a concatenation is
  well-formed exactly when its parts are.)
\<close>

definition byte :: "char \<Rightarrow> nat" where
  "byte c = of_char c"

definition continuation :: "char \<Rightarrow> bool" where
  "continuation c = (0x80 \<le> byte c \<and> byte c \<le> 0xBF)"

definition second_of_three :: "nat \<Rightarrow> char \<Rightarrow> bool" where
  "second_of_three n c =
     (if n = 0xE0 then 0xA0 \<le> byte c \<and> byte c \<le> 0xBF
      else if n = 0xED then 0x80 \<le> byte c \<and> byte c \<le> 0x9F
      else continuation c)"

definition second_of_four :: "nat \<Rightarrow> char \<Rightarrow> bool" where
  "second_of_four n c =
     (if n = 0xF0 then 0x90 \<le> byte c \<and> byte c \<le> 0xBF
      else if n = 0xF4 then 0x80 \<le> byte c \<and> byte c \<le> 0x8F
      else continuation c)"

fun valid_utf8 :: "string \<Rightarrow> bool" where
  "valid_utf8 [] = True"
| "valid_utf8 (c # cs) =
     (if byte c < 0x80 then valid_utf8 cs
      else if 0xC2 \<le> byte c \<and> byte c \<le> 0xDF then
        (case cs of c1 # r \<Rightarrow> continuation c1 \<and> valid_utf8 r | _ \<Rightarrow> False)
      else if 0xE0 \<le> byte c \<and> byte c \<le> 0xEF then
        (case cs of c1 # c2 # r \<Rightarrow>
           second_of_three (byte c) c1 \<and> continuation c2 \<and> valid_utf8 r | _ \<Rightarrow> False)
      else if 0xF0 \<le> byte c \<and> byte c \<le> 0xF4 then
        (case cs of c1 # c2 # c3 # r \<Rightarrow>
           second_of_four (byte c) c1 \<and> continuation c2 \<and> continuation c3 \<and> valid_utf8 r
         | _ \<Rightarrow> False)
      else False)"

text \<open>
  \<^verbatim>\<open>os.path.join(a, b)\<close> of posixpath, for two arguments:
  \<^verbatim>\<open>
  if b.startswith(sep): path = b
  elif not path or path.endswith(sep): path += b
  else: path += sep + b
  \<close>
\<close>

definition join :: "string \<Rightarrow> string \<Rightarrow> string" where
  "join a b =
     (if startswith b [sep] then b
      else if a = [] \<or> endswith a [sep] then a @ b
      else a @ [sep] @ b)"

text \<open>
  The file system is keyed by resolved paths: whether the path is absolute, and its
  components, empty components and \<^verbatim>\<open>.\<close> dropped (so \<^verbatim>\<open>/a//b/\<close> and
  \<^verbatim>\<open>/a/b\<close> name the same node). Symbolic links, \<^verbatim>\<open>..\<close> and the current
  directory are not resolved: a relative path lives below the key \<open>(False, [])\<close>.
  A path that ends in a slash or in the component \<^verbatim>\<open>.\<close> asks for a directory:
  it finds nothing where a regular file stands (\<open>node_at\<close> below).
\<close>

fun split_on :: "char \<Rightarrow> string \<Rightarrow> string list" where
  "split_on c [] = [[]]"
| "split_on c (x # xs) =
     (if x = c then [] # split_on c xs
      else (case split_on c xs of [] \<Rightarrow> [[x]] | y # ys \<Rightarrow> (x # y) # ys))"

type_synonym pkey = "bool \<times> string list"

definition resolve :: "string \<Rightarrow> pkey" where
  "resolve p = (startswith p [sep], filter (\<lambda>c. c \<noteq> [] \<and> c \<noteq> ''.'') (split_on sep p))"

definition parent :: "pkey \<Rightarrow> pkey" where
  "parent k = (fst k, butlast (snd k))"

datatype node = File string | Dir "string list"

type_synonym filesystem = "pkey \<rightharpoonup> node"

definition dir_form :: "string \<Rightarrow> bool" where
  "dir_form p = (last (split_on sep p) = [] \<or> last (split_on sep p) = ''.'')"

text \<open>What the path \<open>p\<close> finds (what \<^verbatim>\<open>stat\<close> would succeed on).\<close>

definition node_at :: "filesystem \<Rightarrow> string \<Rightarrow> node option" where
  "node_at f p =
     (if p = [] then None
      else (case f (resolve p) of
              Some (File s) \<Rightarrow> (if dir_form p then None else Some (File s))
            | n \<Rightarrow> n))"

section \<open>The world the scripts run in\<close>

datatype py_error =
    AttributeError | NameError | UnboundLocalError | SystemExit
  | FileNotFoundError | NotADirectoryError | IsADirectoryError | FileExistsError
  | UnicodeDecodeError | UnicodeEncodeError

text \<open>
  Where a child process's standard output and standard error go: inherited from the
  wrapper (straight to the console), a pipe read by the wrapper, the null device, or
  (standard error only) the child's standard output.
\<close>

datatype stream = Inherit | Pipe | DevNull | ToStdout

datatype event =
    Print string
  | ConsoleSuccess "string list"
  | Shell string stream stream
  | MkDir string
  | MakeDirs string
  | WriteFile string string
  | SetEnv string string
  | ChDir string

record world =
  fs :: filesystem
  env :: "string \<rightharpoonup> string"
  trace :: "event list"

text \<open>
  What a command line does when a shell runs it is not this repository's code: it is a
  parameter, giving the file system after the child has exited, the lines the child wrote
  (as the bytes it wrote, each line with its line end) and its exit status, from the
  command, the environment and the file system before.
\<close>

type_synonym shell = "string \<Rightarrow> (string \<rightharpoonup> string) \<Rightarrow> filesystem \<Rightarrow> filesystem \<times> string list \<times> int"

type_synonym 'a py = "world \<Rightarrow> (py_error + 'a) \<times> world"

definition ret :: "'a \<Rightarrow> 'a py" where
  "ret a = (\<lambda>w. (Inr a, w))"

definition raise :: "py_error \<Rightarrow> 'a py" where
  "raise e = (\<lambda>w. (Inl e, w))"

definition bind :: "'a py \<Rightarrow> ('a \<Rightarrow> 'b py) \<Rightarrow> 'b py" where
  "bind m f = (\<lambda>w. case m w of (Inl e, w') \<Rightarrow> (Inl e, w') | (Inr a, w') \<Rightarrow> f a w')"

fun block :: "unit py list \<Rightarrow> unit py" where
  "block [] = ret ()"
| "block (m # ms) = bind m (\<lambda>_. block ms)"

fun for_each :: "'a list \<Rightarrow> ('a \<Rightarrow> unit py) \<Rightarrow> unit py" where
  "for_each [] body = ret ()"
| "for_each (x # xs) body = bind (body x) (\<lambda>_. for_each xs body)"

definition emit :: "event \<Rightarrow> unit py" where
  "emit e = (\<lambda>w. (Inr (), w\<lparr>trace := trace w @ [e]\<rparr>))"

text \<open>
  \<^verbatim>\<open>print\<close> writes to the console. The console stream is taken to accept every
  string, as it does where Python opens it with the \<^verbatim>\<open>surrogateescape\<close> handler
  (the C and POSIX locales).
\<close>

definition print :: "string \<Rightarrow> unit py" where
  "print s = emit (Print s)"

definition console_success :: "string list \<Rightarrow> unit py" where
  "console_success args = emit (ConsoleSuccess args)"

definition environ_set :: "string \<Rightarrow> string \<Rightarrow> unit py" where
  "environ_set k v = (\<lambda>w. (Inr (), w\<lparr>env := (env w)(k \<mapsto> v), trace := trace w @ [SetEnv k v]\<rparr>))"

definition environ_get :: "string \<Rightarrow> string option py" where
  "environ_get k = (\<lambda>w. (Inr (env w k), w))"

definition str_opt :: "string option \<Rightarrow> string" where
  "str_opt v = (case v of None \<Rightarrow> ''None'' | Some s \<Rightarrow> s)"

subsection \<open>File-system calls\<close>

definition path_exists :: "filesystem \<Rightarrow> string \<Rightarrow> bool" where
  "path_exists f p = (node_at f p \<noteq> None)"

definition os_path_exists :: "string \<Rightarrow> bool py" where
  "os_path_exists p = (\<lambda>w. (Inr (path_exists (fs w) p), w))"

definition os_listdir :: "string \<Rightarrow> string list py" where
  "os_listdir p = (\<lambda>w.
     if p = [] then (Inl FileNotFoundError, w)
     else (case fs w (resolve p) of
             None \<Rightarrow> (Inl FileNotFoundError, w)
           | Some (File _) \<Rightarrow> (Inl NotADirectoryError, w)
           | Some (Dir es) \<Rightarrow> (Inr es, w)))"

text \<open>Entering a new name into its parent directory's listing.\<close>

definition add_entry :: "filesystem \<Rightarrow> pkey \<Rightarrow> filesystem" where
  "add_entry f k =
     (case f (parent k) of
        Some (Dir es) \<Rightarrow>
          (if snd k = [] \<or> last (snd k) \<in> set es then f
           else f(parent k \<mapsto> Dir (es @ [last (snd k)])))
      | _ \<Rightarrow> f)"

text \<open>
  \<^verbatim>\<open>mkdir(2)\<close> on a key: the target must not exist, and its parent must be a
  directory.
\<close>

definition mkdir_key :: "filesystem \<Rightarrow> pkey \<Rightarrow> py_error + filesystem" where
  "mkdir_key f k =
     (if snd k = [] \<or> f k \<noteq> None then Inl FileExistsError
      else (case f (parent k) of
              None \<Rightarrow> Inl FileNotFoundError
            | Some (File _) \<Rightarrow> Inl NotADirectoryError
            | Some (Dir _) \<Rightarrow> Inr ((add_entry f k)(k \<mapsto> Dir []))))"

definition os_mkdir :: "string \<Rightarrow> unit py" where
  "os_mkdir p = (\<lambda>w.
     if p = [] then (Inl FileNotFoundError, w)
     else (case mkdir_key (fs w) (resolve p) of
             Inl e \<Rightarrow> (Inl e, w)
           | Inr f' \<Rightarrow> (Inr (), w\<lparr>fs := f', trace := trace w @ [MkDir p]\<rparr>)))"

text \<open>
  \<^verbatim>\<open>os.makedirs(name)\<close> (with \<^verbatim>\<open>exist_ok=False\<close>): every missing ancestor is
  created, from the top, then the leaf; the leaf must not exist.
  \<open>makedirs_from f a pre cs\<close> has reached the directory \<open>(a, pre)\<close> and still has the
  components \<open>cs\<close> to go.
\<close>

fun makedirs_from :: "filesystem \<Rightarrow> bool \<Rightarrow> string list \<Rightarrow> string list \<Rightarrow> py_error + filesystem" where
  "makedirs_from f a pre [] = Inr f"
| "makedirs_from f a pre (c # cs) =
     (case f (a, pre @ [c]) of
        Some (Dir _) \<Rightarrow>
          (if cs = [] then Inl FileExistsError else makedirs_from f a (pre @ [c]) cs)
      | Some (File _) \<Rightarrow>
          Inl (if cs = [] then FileExistsError else NotADirectoryError)
      | None \<Rightarrow>
          (case mkdir_key f (a, pre @ [c]) of
             Inl e \<Rightarrow> Inl e
           | Inr f' \<Rightarrow> makedirs_from f' a (pre @ [c]) cs))"

definition os_makedirs :: "string \<Rightarrow> unit py" where
  "os_makedirs p = (\<lambda>w.
     if p = [] then (Inl FileNotFoundError, w)
     else if snd (resolve p) = [] then (Inl FileExistsError, w)
     else (case makedirs_from (fs w) (fst (resolve p)) [] (snd (resolve p)) of
             Inl e \<Rightarrow> (Inl e, w)
           | Inr f' \<Rightarrow> (Inr (), w\<lparr>fs := f', trace := trace w @ [MakeDirs p]\<rparr>)))"

text \<open>
  \<^verbatim>\<open>with open(p, 'w') as f: for item in items: f.write(item)\<close>. The file is
  created or truncated when it is opened, which fails on a directory, below a missing
  parent, and on a path in directory form. Each \<^verbatim>\<open>write\<close> encodes its item strictly:
  the first item that cannot be encoded raises \<^verbatim>\<open>UnicodeEncodeError\<close>, and leaving
  the \<^verbatim>\<open>with\<close> block closes the file with the items written before it.
\<close>

definition written :: "string list \<Rightarrow> string" where
  "written items = concat (takeWhile valid_utf8 items)"

definition write_outcome :: "string list \<Rightarrow> py_error + unit" where
  "write_outcome items = (if list_all valid_utf8 items then Inr () else Inl UnicodeEncodeError)"

definition write_file :: "string \<Rightarrow> string list \<Rightarrow> unit py" where
  "write_file p items = (\<lambda>w.
     if p = [] then (Inl FileNotFoundError, w)
     else if snd (resolve p) = [] then (Inl IsADirectoryError, w)
     else (case fs w (resolve p) of
             Some (Dir _) \<Rightarrow> (Inl IsADirectoryError, w)
           | Some (File _) \<Rightarrow>
               (if dir_form p then (Inl NotADirectoryError, w)
                else (write_outcome items,
                      w\<lparr>fs := (fs w)(resolve p \<mapsto> File (written items)),
                        trace := trace w @ [WriteFile p (written items)]\<rparr>))
           | None \<Rightarrow>
               (case fs w (parent (resolve p)) of
                  None \<Rightarrow> (Inl FileNotFoundError, w)
                | Some (File _) \<Rightarrow> (Inl NotADirectoryError, w)
                | Some (Dir _) \<Rightarrow>
                    (if dir_form p then (Inl IsADirectoryError, w)
                     else (write_outcome items,
                           w\<lparr>fs := (add_entry (fs w) (resolve p))(resolve p \<mapsto> File (written items)),
                             trace := trace w @ [WriteFile p (written items)]\<rparr>)))))"

text \<open>
  Reading in text mode decodes the file's content strictly, which raises
  \<^verbatim>\<open>UnicodeDecodeError\<close> on content that is not well-formed UTF-8, and translates
  \<^verbatim>\<open>\r\n\<close> and \<^verbatim>\<open>\r\<close> to \<^verbatim>\<open>\n\<close>; \<^verbatim>\<open>readlines()\<close> reads the whole
  file, cuts after every \<^verbatim>\<open>\n\<close> and keeps it.
\<close>

fun universal_newlines :: "string \<Rightarrow> string" where
  "universal_newlines [] = []"
| "universal_newlines [c] = (if c = CR then [LF] else [c])"
| "universal_newlines (c # d # cs) =
     (if c = CR \<and> d = LF then LF # universal_newlines cs
      else if c = CR then LF # universal_newlines (d # cs)
      else c # universal_newlines (d # cs))"

fun lines_keepends :: "string \<Rightarrow> string \<Rightarrow> string list" where
  "lines_keepends cur [] = (if cur = [] then [] else [cur])"
| "lines_keepends cur (c # cs) =
     (if c = LF then (cur @ [c]) # lines_keepends [] cs
      else lines_keepends (cur @ [c]) cs)"

definition readlines :: "string \<Rightarrow> string list" where
  "readlines txt = lines_keepends [] (universal_newlines txt)"

definition open_readlines :: "string \<Rightarrow> string list py" where
  "open_readlines p = (\<lambda>w.
     if p = [] then (Inl FileNotFoundError, w)
     else (case fs w (resolve p) of
             None \<Rightarrow> (Inl FileNotFoundError, w)
           | Some (Dir _) \<Rightarrow> (Inl IsADirectoryError, w)
           | Some (File txt) \<Rightarrow>
               (if dir_form p then (Inl NotADirectoryError, w)
                else if valid_utf8 txt then (Inr (readlines txt), w)
                else (Inl UnicodeDecodeError, w))))"

definition os_chdir :: "string \<Rightarrow> unit py" where
  "os_chdir p = (\<lambda>w.
     if p = [] then (Inl FileNotFoundError, w)
     else (case fs w (resolve p) of
             None \<Rightarrow> (Inl FileNotFoundError, w)
           | Some (File _) \<Rightarrow> (Inl NotADirectoryError, w)
           | Some (Dir _) \<Rightarrow> (Inr (), w\<lparr>trace := trace w @ [ChDir p]\<rparr>)))"

subsection \<open>Child processes\<close>

text \<open>
  One run of a command line by the shell, to completion: the child's effect on the file
  system is taken from the parameter \<open>sh\<close>, the call is recorded with where its two
  output streams go, and the child's lines and exit status are handed back.
\<close>

definition run_shell :: "shell \<Rightarrow> string \<Rightarrow> stream \<Rightarrow> stream \<Rightarrow> (string list \<times> int) py" where
  "run_shell sh cmd out err = (\<lambda>w.
     case sh cmd (env w) (fs w) of
       (f', ls, st) \<Rightarrow> (Inr (ls, st), w\<lparr>fs := f', trace := trace w @ [Shell cmd out err]\<rparr>))"

text \<open>\<^verbatim>\<open>os.system(cmd)\<close>: the child inherits both streams; the status is returned.\<close>

definition os_system :: "shell \<Rightarrow> string \<Rightarrow> int py" where
  "os_system sh cmd = bind (run_shell sh cmd Inherit Inherit) (\<lambda>(ls, st). ret st)"

text \<open>
  \<^verbatim>\<open>subprocess.Popen([cmd], shell=True, stdout=PIPE, stderr=STDOUT)\<close> as a context
  manager whose body reads \<^verbatim>\<open>process.stdout\<close> to its end: the lines read. When the
  body raises before the end, the pipe is closed and the child waited for; what the child
  has done to the file system by then is taken to be what it does when it runs to its
  end (no statement below is about the file system after such a run).
\<close>

definition popen_lines :: "shell \<Rightarrow> string \<Rightarrow> string list py" where
  "popen_lines sh cmd = bind (run_shell sh cmd Pipe ToStdout) (\<lambda>(ls, st). ret ls)"

text \<open>\<^verbatim>\<open>subprocess.call([cmd], shell=True, stdout=DEVNULL, stderr=STDOUT)\<close>.\<close>

definition subprocess_call :: "shell \<Rightarrow> string \<Rightarrow> int py" where
  "subprocess_call sh cmd = bind (run_shell sh cmd DevNull ToStdout) (\<lambda>(ls, st). ret st)"

text \<open>The command lines a trace handed to the shell, in order.\<close>

fun shell_cmds :: "event list \<Rightarrow> string list" where
  "shell_cmds [] = []"
| "shell_cmds (Shell c out err # es) = c # shell_cmds es"
| "shell_cmds (e # es) = shell_cmds es"

text \<open>The changes a trace made to the file system by the wrapper's own calls.\<close>

fun fs_writes :: "event list \<Rightarrow> event list" where
  "fs_writes [] = []"
| "fs_writes (MkDir p # es) = MkDir p # fs_writes es"
| "fs_writes (MakeDirs p # es) = MakeDirs p # fs_writes es"
| "fs_writes (WriteFile p c # es) = WriteFile p c # fs_writes es"
| "fs_writes (e # es) = fs_writes es"

section \<open>runProbtrackx2GPU.py\<close>

definition spaced :: "string list \<Rightarrow> string" where
  "spaced args = (case args of [] \<Rightarrow> [] | a # as \<Rightarrow> a @ concat (map (\<lambda>b. '' '' @ b) as))"

text \<open>\<^verbatim>\<open>print(a, b, ...)\<close> writes its arguments separated by one space.\<close>

definition print_args :: "string list \<Rightarrow> unit py" where
  "print_args args = print (spaced args)"

definition discard :: "'a py \<Rightarrow> unit py" where
  "discard m = bind m (\<lambda>_. ret ())"

datatype argkind = StoreStr | StoreTrue

record argspec =
  short_flag :: string
  long_flag :: string
  kind :: argkind
  required :: bool

record ptx_args =
  input_directory :: string
  subject :: string
  output_directory :: string
  bedpost_directory :: string
  network :: "string option"
  no_geometry_fix :: bool
  cpu :: bool

definition ptx_parser :: "argspec list" where
  "ptx_parser =
     [\<lparr>short_flag = ''-i'', long_flag = ''--input_directory'', kind = StoreStr, required = True\<rparr>,
      \<lparr>short_flag = ''-s'', long_flag = ''--subject'', kind = StoreStr, required = True\<rparr>,
      \<lparr>short_flag = ''-o'', long_flag = ''--output_directory'', kind = StoreStr, required = True\<rparr>,
      \<lparr>short_flag = ''-b'', long_flag = ''--bedpost_directory'', kind = StoreStr, required = True\<rparr>,
      \<lparr>short_flag = ''-n'', long_flag = ''--network'', kind = StoreStr, required = False\<rparr>,
      \<lparr>short_flag = ''-g'', long_flag = ''--no_geometry_fix'', kind = StoreTrue, required = False\<rparr>,
      \<lparr>short_flag = ''-c'', long_flag = ''--cpu'', kind = StoreTrue, required = False\<rparr>]"

text \<open>
  \<^verbatim>\<open>parse_args\<close> of runProbtrackx2GPU.py returns \<^verbatim>\<open>parser.parse_args()\<close>. The
  argparse library is not this repository's code: \<open>ap\<close> is what it does with the
  declared arguments and the command line, either the namespace or its exit.
\<close>

definition parse_args_ptx :: "(argspec list \<Rightarrow> string list \<Rightarrow> py_error + ptx_args) \<Rightarrow> string list \<Rightarrow> ptx_args py" where
  "parse_args_ptx ap argv = (\<lambda>w. (ap ptx_parser argv, w))"

datatype device = Cuda | Cpu

definition str_device :: "device \<Rightarrow> string" where
  "str_device d = (case d of Cuda \<Rightarrow> ''cuda'' | Cpu \<Rightarrow> ''cpu'')"

text \<open>
  \<^verbatim>\<open>return(device, cuda)\<close> reads two local variables; reading one that no
  assignment has bound raises \<^verbatim>\<open>UnboundLocalError\<close>.
\<close>

definition return_locals :: "device option \<Rightarrow> bool option \<Rightarrow> (device \<times> bool) py" where
  "return_locals dev cu =
     (case dev of
        None \<Rightarrow> raise UnboundLocalError
      | Some d \<Rightarrow> (case cu of None \<Rightarrow> raise UnboundLocalError | Some c \<Rightarrow> ret (d, c)))"

text \<open>\<open>available\<close> is what \<^verbatim>\<open>torch.cuda.is_available()\<close> answers.\<close>

definition set_device :: "bool \<Rightarrow> (device \<times> bool) py" where
  "set_device available =
     (if available then
        bind (block
          [environ_set ''CUDA_HOME'' ''/usr/pubsw/packages/CUDA/11.6/'',
           environ_set ''CUDA_VISIBLE_DEVICES'' ''0'',
           environ_set ''LD_LIBRARY_PATH'' ''/usr/pubsw/packages/CUDA/11.6/lib64:/usr/pubsw/packages/CUDA/11.6/extras/CUPTI/lib64:/usr/pubsw/packages/CUDA/9.0/lib64:/usr/pubsw/packages/CUDA/9.1/lib64''])
          (\<lambda>_. return_locals (Some Cuda) (Some True))
      else return_locals (Some Cpu) None)"

definition get_roi_list :: "string \<Rightarrow> string \<Rightarrow> string \<Rightarrow> (string list \<times> string) py" where
  "get_roi_list roi_path subj date =
     bind (os_listdir roi_path) (\<lambda>files.
       let rois = filter (\<lambda>item. endswith item ''.nii'') (map (join roi_path) files);
           network_file_name = subj @ ''_network_'' @ date @ ''.txt'';
           network_file = join roi_path network_file_name
       in bind (write_file network_file (map (\<lambda>item. item @ [LF]) rois))
            (\<lambda>_. ret (rois, network_file)))"

definition set_geometry :: "shell \<Rightarrow> string \<Rightarrow> string \<Rightarrow> unit py" where
  "set_geometry sh bedpost network_file =
     (let mask = join bedpost ''nodif_brain_mask.nii.gz'' in
      bind (os_path_exists mask) (\<lambda>mask_exists.
      bind (if mask_exists then os_path_exists network_file else ret False) (\<lambda>both_exist.
        if both_exist then
          block
            [print_args [''Diffusion Mask Volume == '', mask],
             print_args [''ROI Network List == '', network_file],
             bind (open_readlines network_file) (\<lambda>rois.
               for_each rois (\<lambda>line.
                 block
                   [print_args [''Working on'', line],
                    discard (os_system sh (''fslcpgeom '' @ mask @ '' '' @ line))]))]
        else ret ())))"

definition probtrackx_version :: "bool \<Rightarrow> string" where
  "probtrackx_version cuda =
     (if cuda then ''/usr/pubsw/packages/fsl/6.0.5.1/bin/probtrackx2_gpu''
      else ''/usr/pubsw/packages/fsl/6.0.5.1/bin/probtrackx2'')"

definition probtrackxCommand :: "string \<Rightarrow> string \<Rightarrow> string \<Rightarrow> bool \<Rightarrow> string" where
  "probtrackxCommand outdir bedpost network_matrix cuda =
     probtrackx_version cuda @ '' -x '' @ network_matrix
       @ '' -s '' @ join bedpost ''merged''
       @ '' -m '' @ join bedpost ''nodif_brain_mask''
       @ '' --dir='' @ outdir
       @ '' -l -c 0.2 -S 2000 -P 5000 --fibthresh=0.01 --distthresh=0.0 --sampvox=0.0 --steplength=0.25 --forcedir --opd --network -V 1''"

definition build_probtrackx_command :: "shell \<Rightarrow> string \<Rightarrow> string \<Rightarrow> string \<Rightarrow> bool \<Rightarrow> device \<Rightarrow> unit py" where
  "build_probtrackx_command sh outdir bedpost network_matrix cuda dev =
     block
       [print (probtrackxCommand outdir bedpost network_matrix cuda),
        discard (os_system sh (probtrackxCommand outdir bedpost network_matrix cuda))]"

text \<open>The sections of \<^verbatim>\<open>main\<close>, under the names of its banner comments.\<close>

definition device_configuration :: "bool \<Rightarrow> bool \<Rightarrow> (device \<times> bool) py" where
  "device_configuration use_gpu available =
     bind (print ''#------------------- Device Configuration -------------------'') (\<lambda>_.
     bind (if use_gpu then
             bind (set_device available) (\<lambda>(dev, cuda).
             bind (console_success [''Using'', str_device dev, ''device.'']) (\<lambda>_.
               ret (dev, cuda)))
           else
             bind (console_success [''Using'', str_device Cpu, ''device.'']) (\<lambda>_.
               ret (Cpu, False))) (\<lambda>r.
     bind (print '' '') (\<lambda>_. ret r)))"

definition print_environ :: "string \<Rightarrow> string \<Rightarrow> unit py" where
  "print_environ label k = bind (environ_get k) (\<lambda>v. print_args [label, str_opt v])"

definition set_up_environment :: "unit py" where
  "set_up_environment =
     block
       [print ''------------------- Setting Up Enviornment -------------------'',
        environ_set ''FSLDIR'' ''/usr/pubsw/packages/fsl/6.0.5.1'',
        print_environ ''FSL DIRECTORY --> '' ''FSLDIR'',
        print_environ ''CUDA HOME --> '' ''CUDA_HOME'',
        print_environ ''LD LIBRARY PATH --> '' ''LD_LIBRARY_PATH'',
        print_environ ''CUDA VISIBLE DEVICES --> '' ''CUDA_VISIBLE_DEVICES'',
        print '' '']"

definition set_up_output_directory :: "string \<Rightarrow> unit py" where
  "set_up_output_directory outdir =
     bind (os_path_exists outdir) (\<lambda>isExist.
       if \<not> isExist then
         block [print_args [''Creating output directory ->'', outdir], os_mkdir outdir]
       else print_args [''Output Directory ='', outdir])"

definition main_function_calls :: "shell \<Rightarrow> string \<Rightarrow> ptx_args \<Rightarrow> string \<Rightarrow> string \<Rightarrow> bool \<Rightarrow> device \<Rightarrow> unit py" where
  "main_function_calls sh now args currentDate outdir cuda dev =
     bind (print []) (\<lambda>_.
     bind (print_args [''------------------- Begin Processing '', now, ''-------------------'']) (\<lambda>_.
     bind (case network args of
             Some nf \<Rightarrow>
               bind (print_args [''Skip ROI List Generation,'', nf, ''provided as ROI list.'']) (\<lambda>_. ret nf)
           | None \<Rightarrow>
               bind (print ''Generating ROI Network File'') (\<lambda>_.
               bind (get_roi_list (input_directory args) (subject args) currentDate) (\<lambda>(rois, nf).
                 ret nf))) (\<lambda>network_file.
     block
       [if no_geometry_fix args then
          print ''Skip Geometry has been set - will NOT copy geometry from diffusion mask to ROIs.''
        else
          block
            [print ''Copying Diffusion Mask Geometry to ROI'',
             set_geometry sh (bedpost_directory args) network_file],
        print ''Running Probtrackx2'',
        build_probtrackx_command sh outdir (bedpost_directory args) network_file cuda dev,
        print ''Done!''])))"

text \<open>
  \<open>currentDate\<close> is today's date as \<^verbatim>\<open>%Y%m%d\<close> and \<open>now\<close> the printed
  \<^verbatim>\<open>datetime.datetime.now()\<close>, both read from the clock before anything else.
\<close>

definition main_ptx :: "(argspec list \<Rightarrow> string list \<Rightarrow> py_error + ptx_args) \<Rightarrow> string list \<Rightarrow> bool \<Rightarrow> string \<Rightarrow> string \<Rightarrow> shell \<Rightarrow> unit py" where
  "main_ptx ap argv available currentDate now sh =
     bind (parse_args_ptx ap argv) (\<lambda>args.
       let directory_name = subject args @ ''.probtrackx.network.'' @ currentDate;
           outdir = join (output_directory args) directory_name;
           use_gpu = \<not> cpu args
       in bind (device_configuration use_gpu available) (\<lambda>(dev, cuda).
            block
              [set_up_environment,
               set_up_output_directory outdir,
               main_function_calls sh now args currentDate outdir cuda dev]))"

section \<open>registerYeoAtlas.py\<close>

record yeo_args =
  subject_directory :: string
  fs_average :: string
  atlas_directory :: string
  lut :: string

definition yeo_parser :: "argspec list" where
  "yeo_parser =
     [\<lparr>short_flag = ''-s'', long_flag = ''--subject_directory'', kind = StoreStr, required = True\<rparr>,
      \<lparr>short_flag = ''-f'', long_flag = ''--fs_average'', kind = StoreStr, required = True\<rparr>,
      \<lparr>short_flag = ''-a'', long_flag = ''--atlas_directory'', kind = StoreStr, required = True\<rparr>,
      \<lparr>short_flag = ''-l'', long_flag = ''--lut'', kind = StoreStr, required = True\<rparr>]"

text \<open>
  \<^verbatim>\<open>parse_args\<close> of registerYeoAtlas.py builds the parser and declares its four
  arguments; its body ends there, without calling \<^verbatim>\<open>parser.parse_args()\<close> and
  without a \<^verbatim>\<open>return\<close>, so the call yields Python's \<^verbatim>\<open>None\<close>
  (here \<open>None\<close>) and the command line is never looked at.
\<close>

definition parse_args_yeo :: "string list \<Rightarrow> yeo_args option py" where
  "parse_args_yeo argv = (let parser = yeo_parser in ret None)"

text \<open>Reading an attribute of what \<^verbatim>\<open>parse_args\<close> returned.\<close>

definition getattr :: "yeo_args option \<Rightarrow> (yeo_args \<Rightarrow> string) \<Rightarrow> string py" where
  "getattr obj field = (case obj of None \<Rightarrow> raise AttributeError | Some a \<Rightarrow> ret (field a))"

text \<open>
  The module binds, at its top level, only the imported modules and its six functions:
  no module-level variable holds a string. A function that reads a name which is neither
  one of its locals nor bound in the module raises \<^verbatim>\<open>NameError\<close>.
\<close>

definition module_globals :: "string \<rightharpoonup> string" where
  "module_globals = Map.empty"

definition global_var :: "string \<Rightarrow> string py" where
  "global_var name = (case module_globals name of None \<Rightarrow> raise NameError | Some v \<Rightarrow> ret v)"

text \<open>\<^verbatim>\<open>line.decode('utf8')\<close>.\<close>

definition decode_utf8 :: "string \<Rightarrow> string py" where
  "decode_utf8 b = (if valid_utf8 b then ret b else raise UnicodeDecodeError)"

definition callSub :: "shell \<Rightarrow> string \<Rightarrow> unit py" where
  "callSub sh run_command =
     bind (popen_lines sh run_command) (\<lambda>out.
     bind (for_each out (\<lambda>line. bind (decode_utf8 line) (\<lambda>text. print text))) (\<lambda>_.
       discard (subprocess_call sh run_command)))"

definition surfReg :: "shell \<Rightarrow> string \<Rightarrow> string \<Rightarrow> unit py" where
  "surfReg sh subj subject_dir =
     for_each [''lh'', ''rh''] (\<lambda>hemi.
       bind (print (''Processing HEMI '' @ hemi @ '' for '' @ subj)) (\<lambda>_.
       bind (global_var ''SUBJECTS_DIR'') (\<lambda>SUBJECTS_DIR.
       bind (os_chdir SUBJECTS_DIR) (\<lambda>_.
       bind (global_var ''CBIG_CODE_DIR'') (\<lambda>CBIG_CODE_DIR.
       bind (global_var ''FSA'') (\<lambda>FSA.
         let annotFile = join CBIG_CODE_DIR
               (''stable_projects/brain_parcellation/Schaefer2018_LocalGlobal/Parcellations/FreeSurfer5.3/''
                 @ FSA @ ''/label/'' @ hemi @ ''.Schaefer2018_1000Parcels_7Networks_order.annot'');
             targVal = join subject_dir
               (''label/'' @ hemi @ ''.Schaefer2018_1000Parcels_7Networks_order.annot'')
         in bind (print annotFile) (\<lambda>_.
            bind (print targVal) (\<lambda>_.
            bind (global_var ''FSA'') (\<lambda>FSA'.
              let surfCmd = ''mri_surf2surf --hemi '' @ hemi @ '' --srcsubject '' @ FSA'
                    @ '' --trgsubject '' @ subj @ '' --sval-annot '' @ annotFile
                    @ '' --tval '' @ targVal
              in block [print_args [''>>>'', surfCmd], callSub sh surfCmd])))))))))"

definition parc2segCmd :: "string \<Rightarrow> string \<Rightarrow> string" where
  "parc2segCmd subj subject_dir =
     ''mri_aparc2aseg --s '' @ subj @ '' --o '' @ subject_dir @ ''/mri/'' @ subj
       @ ''_Schaefer2018_1000Parcels_7Networks.mgz --annot Schaefer2018_1000Parcels_7Networks_order''"

definition parc2seg :: "shell \<Rightarrow> string \<Rightarrow> string \<Rightarrow> unit py" where
  "parc2seg sh subj subject_dir =
     block
       [print_args [''>>>'', parc2segCmd subj subject_dir],
        callSub sh (parc2segCmd subj subject_dir)]"

definition annot2labelCmd :: "string \<Rightarrow> string \<Rightarrow> string \<Rightarrow> string" where
  "annot2labelCmd subj hemi outdir =
     ''mri_annotation2label --subject '' @ subj @ '' --hemi '' @ hemi
       @ '' --annotation Schaefer2018_1000Parcels_7Networks_order --outdir '' @ outdir
       @ '' --ctab '' @ outdir @ ''/Schaefer2018_'' @ hemi @ ''_LUT.txt''"

definition annot2label :: "shell \<Rightarrow> string \<Rightarrow> string \<Rightarrow> unit py" where
  "annot2label sh subj outdir =
     for_each [''lh'', ''rh''] (\<lambda>hemi.
       block
         [print (''Processing HEMI '' @ hemi @ '' for '' @ subj),
          print_args [''>>>'', annot2labelCmd subj hemi outdir],
          callSub sh (annot2labelCmd subj hemi outdir)])"

definition symlinkCmd :: "string \<Rightarrow> string \<Rightarrow> string" where
  "symlinkCmd f_LUT subDir =
     ''os.symlink('' @ f_LUT @ '', os.path.join('' @ subDir
       @ '',Schaefer2018_1000Parcels_7Networks_order_LUT.txt''"

text \<open>The directory set-up of \<^verbatim>\<open>main\<close>'s loop body (its lines 100 to 102).\<close>

definition set_up_outDir :: "string \<Rightarrow> unit py" where
  "set_up_outDir outDir =
     bind (os_path_exists outDir) (\<lambda>ex.
       if \<not> ex then
         block [print (''OUT DIR '' @ outDir @ '' -- Does not exist''), os_makedirs outDir]
       else ret ())"

text \<open>The body of \<^verbatim>\<open>main\<close>'s loop, for one entry of the listing.\<close>

definition process_entry :: "shell \<Rightarrow> string \<Rightarrow> string \<Rightarrow> string \<Rightarrow> unit py" where
  "process_entry sh SUBJECTS_DIR f_LUT subj =
     bind (print ''subj'') (\<lambda>_.
       if subj \<noteq> ''fsaverage6'' then
         (let subDir = join SUBJECTS_DIR subj;
              outDir = join subDir ''Schaefer2018_labels''
          in block
               [print (''PROCESSING SUBJECT: '' @ subj),
                set_up_outDir outDir,
                print (''Placing copy of Yeo Atlas LUT in '' @ subDir),
                print (symlinkCmd f_LUT subDir),
                callSub sh (symlinkCmd f_LUT subDir),
                surfReg sh subj subDir,
                parc2seg sh subj subDir,
                annot2label sh subj outDir,
                print '' ''])
       else ret ())"

text \<open>\<^verbatim>\<open>main\<close>'s section "Main Functions": the loop over the listing.\<close>

definition main_functions :: "shell \<Rightarrow> string \<Rightarrow> string \<Rightarrow> unit py" where
  "main_functions sh SUBJECTS_DIR f_LUT =
     bind (os_listdir SUBJECTS_DIR) (\<lambda>entries.
       for_each entries (process_entry sh SUBJECTS_DIR f_LUT))"

definition main_yeo :: "string list \<Rightarrow> shell \<Rightarrow> unit py" where
  "main_yeo argv sh =
     bind (parse_args_yeo argv) (\<lambda>args.
     bind (getattr args subject_directory) (\<lambda>SUBJECTS_DIR.
     bind (getattr args atlas_directory) (\<lambda>CBIG_CODE_DIR.
     bind (getattr args fs_average) (\<lambda>FSA.
     bind (getattr args lut) (\<lambda>f_LUT.
       main_functions sh SUBJECTS_DIR f_LUT)))))"

section \<open>The wrapped binaries\<close>

definition wrapped_binaries :: "string list" where
  "wrapped_binaries =
     [''mri_surf2surf'', ''mri_aparc2aseg'', ''mri_annotation2label'',
      ''fslcpgeom'', ''probtrackx2'', ''probtrackx2_gpu'']"

text \<open>
  The program a command line invokes is its first word, up to the first space; the word
  names a binary when it is the binary's name or a path whose last component is.
\<close>

definition command_word :: "string \<Rightarrow> string" where
  "command_word cmd = takeWhile (\<lambda>c. c \<noteq> CHR '' '') cmd"

definition invokes :: "string \<Rightarrow> string \<Rightarrow> bool" where
  "invokes cmd b = (command_word cmd = b \<or> endswith (command_word cmd) (sep # b))"

definition invokes_wrapped_binary :: "string \<Rightarrow> bool" where
  "invokes_wrapped_binary cmd = list_ex (invokes cmd) wrapped_binaries"

text \<open>Whether an event is a run of \<^verbatim>\<open>fslcpgeom\<close>.\<close>

fun runs_fslcpgeom :: "event \<Rightarrow> bool" where
  "runs_fslcpgeom (Shell c out err) = invokes c ''fslcpgeom''"
| "runs_fslcpgeom e = False"

text \<open>
  What stands at a key, and whether a key can be reached through directories only: the
  root of its tree is a directory and none of its proper ancestors is a regular file
  (the ancestors that are missing, \<^verbatim>\<open>os.makedirs\<close> creates).
\<close>

fun is_file :: "node option \<Rightarrow> bool" where
  "is_file (Some (File s)) = True"
| "is_file n = False"

fun is_dir :: "node option \<Rightarrow> bool" where
  "is_dir (Some (Dir es)) = True"
| "is_dir n = False"

definition no_file_above :: "filesystem \<Rightarrow> pkey \<Rightarrow> bool" where
  "no_file_above f k =
     (is_dir (f (fst k, [])) \<and>
      list_all (\<lambda>j. \<not> is_file (f (fst k, take j (snd k)))) [1..<length (snd k)])"

text \<open>Some proper ancestor of the path is a regular file.\<close>

definition file_above :: "filesystem \<Rightarrow> pkey \<Rightarrow> bool" where
  "file_above f k = list_ex (\<lambda>j. is_file (f (fst k, take j (snd k)))) [1..<length (snd k)]"

text \<open>
  The same shell, with every exit status replaced by its image under \<open>g\<close>: what a
  run does with the one and with the other differs only if the run looks at a status.
\<close>

definition with_status :: "(int \<Rightarrow> int) \<Rightarrow> shell \<Rightarrow> shell" where
  "with_status g sh = (\<lambda>cmd e f. case sh cmd e f of (f', ls, st) \<Rightarrow> (f', ls, g st))"

text \<open>A computation that raises from every world.\<close>

definition always_raises :: "'a py \<Rightarrow> bool" where
  "always_raises m = (\<forall>w. \<exists>e. fst (m w) = Inl e)"

text \<open>
  An event stays within the paths \<open>ps\<close>: if it is one of the wrapper's own changes to
  the file system, its path is among them. \<open>listing\<close> is what a directory lists
  (nothing, if it cannot be listed).
\<close>

fun writes_within :: "string list \<Rightarrow> event \<Rightarrow> bool" where
  "writes_within ps (MkDir p) = (p \<in> set ps)"
| "writes_within ps (MakeDirs p) = (p \<in> set ps)"
| "writes_within ps (WriteFile p c) = (p \<in> set ps)"
| "writes_within ps e = True"

definition listing :: "filesystem \<Rightarrow> string \<Rightarrow> string list" where
  "listing f p = (case f (resolve p) of Some (Dir ns) \<Rightarrow> ns | _ \<Rightarrow> [])"

text \<open>
  A computation emits only events with property \<open>P\<close>: from every world, it extends the
  trace, and by such events only.
\<close>

definition emits :: "(event \<Rightarrow> bool) \<Rightarrow> 'a py \<Rightarrow> bool" where
  "emits P m = (\<forall>w. \<exists>es. trace (snd (m w)) = trace w @ es \<and> list_all P es)"

text \<open>The runs of the shell in a trace, with where their streams went.\<close>

fun shell_events :: "event list \<Rightarrow> event list" where
  "shell_events [] = []"
| "shell_events (Shell c out err # es) = Shell c out err # shell_events es"
| "shell_events (e # es) = shell_events es"

text \<open>
  A run of the shell that leaves both of the child's streams inherited, as
  \<^verbatim>\<open>os.system\<close> does (an event that is no run of the shell counts as one), and a run
  of the shell whose command invokes one of the wrapped binaries (likewise).
\<close>

fun inherits_streams :: "event \<Rightarrow> bool" where
  "inherits_streams (Shell c out err) = (out = Inherit \<and> err = Inherit)"
| "inherits_streams e = True"

fun runs_wrapped_binary :: "event \<Rightarrow> bool" where
  "runs_wrapped_binary (Shell c out err) = invokes_wrapped_binary c"
| "runs_wrapped_binary e = True"

text \<open>
  The file system \<open>f'\<close> holds all that \<open>f\<close> holds: every regular file with its
  content, and every directory (with possibly more entries).
\<close>

definition grows :: "filesystem \<Rightarrow> filesystem \<Rightarrow> bool" where
  "grows f f' =
     (\<forall>k. (\<forall>t. f k = Some (File t) \<longrightarrow> f' k = Some (File t)) \<and> (is_dir (f k) \<longrightarrow> is_dir (f' k)))"

text \<open>
  The runs of the shell that the geometry fix of a run of \<^verbatim>\<open>main\<close> is to make, given
  the arguments, the network file and its content: none with \<^verbatim>\<open>--no_geometry_fix\<close>,
  else one \<^verbatim>\<open>fslcpgeom\<close> per line of the network file.
\<close>

definition geometry_expected :: "ptx_args \<Rightarrow> string \<Rightarrow> string \<Rightarrow> event list" where
  "geometry_expected args nf txt =
     (if no_geometry_fix args then []
      else map (\<lambda>line. Shell (''fslcpgeom '' @ join (bedpost_directory args) ''nodif_brain_mask.nii.gz''
                  @ '' '' @ line) Inherit Inherit) (readlines txt))"

section \<open>Basic facts\<close>

lemmas py_defs = ret_def raise_def bind_def emit_def print_def console_success_def
  environ_set_def environ_get_def discard_def print_args_def

lemma shell_cmds_append [simp]: "shell_cmds (xs @ ys) = shell_cmds xs @ shell_cmds ys"
  by (induction xs rule: shell_cmds.induct) simp_all

lemma fs_writes_append [simp]: "fs_writes (xs @ ys) = fs_writes xs @ fs_writes ys"
  by (induction xs rule: fs_writes.induct) simp_all

lemma join_plain:
  "b \<noteq> [] \<Longrightarrow> hd b \<noteq> sep \<Longrightarrow> a \<noteq> [] \<Longrightarrow> last a \<noteq> sep \<Longrightarrow> join a b = a @ sep # b"
  by (cases b) (auto simp: join_def startswith_def endswith_def suffix_def)

lemmas utf8_eval = byte_def continuation_def second_of_three_def second_of_four_def
lemmas path_eval = path_exists_def node_at_def dir_form_def resolve_def join_def startswith_def
  endswith_def sep_def suffix_Cons
lemmas read_eval = readlines_def LF_def CR_def

lemma bind_ret [simp]: "bind (ret a) f = f a"
  by (simp add: py_defs)

lemma emitsD: "emits P m \<Longrightarrow> \<exists>es. trace (snd (m w)) = trace w @ es \<and> list_all P es"
  by (simp add: emits_def)

lemma emits_ret [intro!, simp]: "emits P (ret a)"
  by (simp add: emits_def ret_def)

lemma emits_raise [intro!, simp]: "emits P (raise e)"
  by (simp add: emits_def raise_def)

lemma emits_bind [intro!]:
  assumes "emits P m" and "\<And>a. emits P (f a)"
  shows "emits P (bind m f)"
  unfolding emits_def
proof
  fix w
  obtain es where es: "trace (snd (m w)) = trace w @ es" "list_all P es"
    using emitsD [OF assms(1)] by blast
  show "\<exists>es. trace (snd (bind m f w)) = trace w @ es \<and> list_all P es"
  proof (cases "m w")
    case (Pair r w')
    show ?thesis
    proof (cases r)
      case (Inl e)
      with Pair es show ?thesis by (auto simp: bind_def)
    next
      case (Inr a)
      obtain es' where es': "trace (snd (f a w')) = trace w' @ es'" "list_all P es'"
        using emitsD [OF assms(2)] by blast
      with Pair Inr es show ?thesis by (auto simp: bind_def)
    qed
  qed
qed

lemma emits_block [intro!]: "(\<And>m. m \<in> set ms \<Longrightarrow> emits P m) \<Longrightarrow> emits P (block ms)"
  by (induction ms) auto

lemma emits_for_each [intro!]: "(\<And>x. emits P (body x)) \<Longrightarrow> emits P (for_each xs body)"
  by (induction xs) auto

lemma emits_emit [intro!]: "P e \<Longrightarrow> emits P (emit e)"
  by (simp add: emits_def emit_def)

lemma emits_print [intro!]: "P (Print s) \<Longrightarrow> emits P (print s)"
  by (simp add: print_def emits_emit)

lemma emits_print_args [intro!]: "P (Print (spaced args)) \<Longrightarrow> emits P (print_args args)"
  by (simp add: print_args_def emits_print)

lemma emits_console_success [intro!]: "P (ConsoleSuccess args) \<Longrightarrow> emits P (console_success args)"
  by (simp add: console_success_def emits_emit)

lemma emits_environ_set [intro!]: "P (SetEnv k v) \<Longrightarrow> emits P (environ_set k v)"
  by (simp add: emits_def environ_set_def)

lemma emits_environ_get [intro!, simp]: "emits P (environ_get k)"
  by (simp add: emits_def environ_get_def)

lemma emits_os_path_exists [intro!, simp]: "emits P (os_path_exists p)"
  by (simp add: emits_def os_path_exists_def)

lemma emits_os_listdir [intro!, simp]: "emits P (os_listdir p)"
  by (simp add: emits_def os_listdir_def split: option.splits node.splits)

lemma emits_open_readlines [intro!, simp]: "emits P (open_readlines p)"
  by (simp add: emits_def open_readlines_def split: option.splits node.splits)

lemma emits_os_mkdir [intro!]: "P (MkDir p) \<Longrightarrow> emits P (os_mkdir p)"
  by (simp add: emits_def os_mkdir_def split: sum.splits)

lemma emits_os_makedirs [intro!]: "P (MakeDirs p) \<Longrightarrow> emits P (os_makedirs p)"
  by (simp add: emits_def os_makedirs_def split: sum.splits)

lemma emits_os_chdir [intro!]: "P (ChDir p) \<Longrightarrow> emits P (os_chdir p)"
  by (simp add: emits_def os_chdir_def split: option.splits node.splits)

lemma emits_write_file [intro!]: "(\<And>c. P (WriteFile p c)) \<Longrightarrow> emits P (write_file p items)"
  by (simp add: emits_def write_file_def split: option.splits node.splits)

lemma emits_decode_utf8 [intro!, simp]: "emits P (decode_utf8 b)"
  by (simp add: decode_utf8_def)

lemma emits_run_shell [intro!]: "P (Shell cmd out err) \<Longrightarrow> emits P (run_shell sh cmd out err)"
  by (simp add: emits_def run_shell_def split: prod.splits)

lemma emits_case_prod [intro!]: "(\<And>a b. emits P (f a b)) \<Longrightarrow> emits P (case_prod f x)"
  by (cases x) simp

lemma emits_if [intro!]: "(c \<Longrightarrow> emits P m) \<Longrightarrow> (\<not> c \<Longrightarrow> emits P n) \<Longrightarrow> emits P (if c then m else n)"
  by simp

lemma emits_case_option [intro!]:
  "(v = None \<Longrightarrow> emits P m) \<Longrightarrow> (\<And>x. v = Some x \<Longrightarrow> emits P (f x)) \<Longrightarrow> emits P (case_option m f v)"
  by (cases v) simp_all

lemma emits_os_system [intro!]: "P (Shell cmd Inherit Inherit) \<Longrightarrow> emits P (os_system sh cmd)"
  unfolding os_system_def by (intro emits_bind emits_run_shell emits_case_prod emits_ret)

lemma emits_discard [intro!]: "emits P m \<Longrightarrow> emits P (discard m)"
  unfolding discard_def by (intro emits_bind emits_ret)

lemma emits_set_device: "(\<And>k v. P (SetEnv k v)) \<Longrightarrow> emits P (set_device available)"
  unfolding set_device_def return_locals_def by (auto simp del: block.simps)

lemma for_each_step:
  assumes "fst (body x w) = Inr ()"
  shows "for_each (x # xs) body w = for_each xs body (snd (body x w))"
proof (cases "body x w")
  case (Pair r v)
  with assms show ?thesis by (simp add: bind_def)
qed

lemma for_each_decode_print:
  "for_each ls (\<lambda>line. bind (decode_utf8 line) (\<lambda>text. print text)) =
     (\<lambda>w. (if list_all valid_utf8 ls then Inr () else Inl UnicodeDecodeError,
           w\<lparr>trace := trace w @ map Print (takeWhile valid_utf8 ls)\<rparr>))"
proof -
  define body where "body = (\<lambda>line. bind (decode_utf8 line) (\<lambda>text. print text))"
  have ok: "body l v = (Inr (), v\<lparr>trace := trace v @ [Print l]\<rparr>)" if "valid_utf8 l" for l v
    using that by (simp add: body_def bind_def decode_utf8_def ret_def print_def emit_def)
  have bad: "body l v = (Inl UnicodeDecodeError, v)" if "\<not> valid_utf8 l" for l v
    using that by (simp add: body_def bind_def decode_utf8_def raise_def)
  have "for_each ls body w =
      (if list_all valid_utf8 ls then Inr () else Inl UnicodeDecodeError,
       w\<lparr>trace := trace w @ map Print (takeWhile valid_utf8 ls)\<rparr>)" for w
  proof (induction ls arbitrary: w)
    case Nil
    show ?case by (simp add: ret_def)
  next
    case (Cons l ls)
    show ?case
    proof (cases "valid_utf8 l")
      case True
      have "for_each (l # ls) body w = for_each ls body (snd (body l w))"
        by (rule for_each_step) (simp only: ok [OF True] fst_conv)
      also have "\<dots> = for_each ls body (w\<lparr>trace := trace w @ [Print l]\<rparr>)"
        by (simp only: ok [OF True] snd_conv)
      finally show ?thesis
        using True by (simp add: Cons.IH)
    next
      case False
      have "for_each (l # ls) body w = (Inl UnicodeDecodeError, w)"
        by (simp only: for_each.simps bind_def bad [OF False] prod.case sum.case)
      with False show ?thesis by simp
    qed
  qed
  then show ?thesis
    unfolding body_def by (intro ext)
qed

lemma callSub_run:
  "callSub sh cmd w =
     (if list_all valid_utf8 (fst (snd (sh cmd (env w) (fs w)))) then
        (Inr (), w\<lparr>fs := fst (sh cmd (env w) (fst (sh cmd (env w) (fs w)))),
                   trace := trace w @ Shell cmd Pipe ToStdout
                     # map Print (fst (snd (sh cmd (env w) (fs w))))
                     @ [Shell cmd DevNull ToStdout]\<rparr>)
      else
        (Inl UnicodeDecodeError,
         w\<lparr>fs := fst (sh cmd (env w) (fs w)),
           trace := trace w @ Shell cmd Pipe ToStdout
             # map Print (takeWhile valid_utf8 (fst (snd (sh cmd (env w) (fs w)))))\<rparr>))"
proof -
  have all: "list_all valid_utf8 ls \<Longrightarrow> takeWhile valid_utf8 ls = ls" for ls
    by (simp add: list_all_iff)
  have "callSub sh cmd =
      bind (popen_lines sh cmd) (\<lambda>out.
      bind (\<lambda>w. (if list_all valid_utf8 out then Inr () else Inl UnicodeDecodeError,
                  w\<lparr>trace := trace w @ map Print (takeWhile valid_utf8 out)\<rparr>)) (\<lambda>_.
        discard (subprocess_call sh cmd)))"
    by (simp only: callSub_def for_each_decode_print)
  then show ?thesis
    by (simp add: popen_lines_def subprocess_call_def run_shell_def bind_def ret_def
        discard_def all case_prod_beta)
qed

lemma os_system_run:
  "os_system sh cmd w =
     (Inr (snd (snd (sh cmd (env w) (fs w)))),
      w\<lparr>fs := fst (sh cmd (env w) (fs w)), trace := trace w @ [Shell cmd Inherit Inherit]\<rparr>)"
  by (simp add: os_system_def run_shell_def bind_def ret_def split: prod.splits)

lemma discard_os_system_run:
  "discard (os_system sh cmd) w =
     (Inr (), w\<lparr>fs := fst (sh cmd (env w) (fs w)), trace := trace w @ [Shell cmd Inherit Inherit]\<rparr>)"
  by (simp add: discard_def bind_def ret_def os_system_run)

section \<open>Argument parsing\<close>

text \<open>
  C1. Each script's \<^verbatim>\<open>parse_args\<close> should return the parsed arguments, and
  registerYeoAtlas.py's \<^verbatim>\<open>main\<close> should be able to read \<^verbatim>\<open>subject_directory\<close>,
  \<^verbatim>\<open>atlas_directory\<close>, \<^verbatim>\<open>fs_average\<close> and \<^verbatim>\<open>lut\<close> from the result. The code
  of registerYeoAtlas.py does otherwise: whatever the command line, \<^verbatim>\<open>parse_args\<close>
  returns \<^verbatim>\<open>None\<close>, and \<^verbatim>\<open>main\<close> stops with \<^verbatim>\<open>AttributeError\<close> at its
  first attribute read, before it has printed, listed or run anything.
\<close>

theorem parse_args_yeo_returns_None:
  "parse_args_yeo argv w = (Inr None, w) \<and> main_yeo argv sh w = (Inl AttributeError, w)"
  by (simp add: parse_args_yeo_def main_yeo_def getattr_def py_defs)

section \<open>Device selection\<close>

text \<open>
  The two cases in which the selection works: with \<^verbatim>\<open>--cpu\<close> the device
  configuration yields the CPU and \<^verbatim>\<open>cuda = False\<close> without asking for a device;
  without it and with a CUDA device, it yields the GPU and \<^verbatim>\<open>cuda = True\<close>.
\<close>

lemma set_device_cuda: "fst (set_device True w) = Inr (Cuda, True)"
  by (simp add: set_device_def return_locals_def py_defs)

lemma device_configuration_cpu: "fst (device_configuration False available w) = Inr (Cpu, False)"
  by (simp add: device_configuration_def py_defs)

lemma device_configuration_cuda: "fst (device_configuration True True w) = Inr (Cuda, True)"
  by (simp add: device_configuration_def set_device_def return_locals_def py_defs)

text \<open>
  C3. \<^verbatim>\<open>set_device\<close> should return a (device, cuda) pair in every case, the CPU
  one when no CUDA device is available. The code does otherwise: with no CUDA device,
  the branch taken never assigns \<^verbatim>\<open>cuda\<close>, so \<^verbatim>\<open>set_device\<close> raises
  \<^verbatim>\<open>UnboundLocalError\<close>; a run without \<^verbatim>\<open>--cpu\<close> on such a machine stops
  there and hands no command to the shell.
\<close>

theorem set_device_unbound_cuda:
  "set_device False w = (Inl UnboundLocalError, w) \<and>
   (ap ptx_parser argv = Inr args \<and> \<not> cpu args \<longrightarrow>
      fst (main_ptx ap argv False currentDate now sh w) = Inl UnboundLocalError \<and>
      shell_cmds (trace (snd (main_ptx ap argv False currentDate now sh w))) = shell_cmds (trace w))"
proof -
  have sd: "set_device False w' = (Inl UnboundLocalError, w')" for w'
    by (simp add: set_device_def return_locals_def py_defs)
  show ?thesis
    by (simp add: sd main_ptx_def parse_args_ptx_def device_configuration_def py_defs Let_def)
qed

theorem set_device_unbound_cuda_witness:
  "\<not> cpu \<lparr>input_directory = ''/rois'', subject = ''s01'', output_directory = ''/out'',
           bedpost_directory = ''/data/bedpostx'', network = None, no_geometry_fix = False,
           cpu = False\<rparr> \<and>
   fst (main_ptx
         (\<lambda>_ _. Inr \<lparr>input_directory = ''/rois'', subject = ''s01'', output_directory = ''/out'',
           bedpost_directory = ''/data/bedpostx'', network = None, no_geometry_fix = False,
           cpu = False\<rparr>)
         [''-i'', ''/rois'', ''-s'', ''s01'', ''-o'', ''/out'', ''-b'', ''/data/bedpostx'']
         False ''20230207'' ''2023-02-07 10:00:00'' (\<lambda>c e f. (f, [], 0))
         \<lparr>fs = Map.empty, env = Map.empty, trace = []\<rparr>) = Inl UnboundLocalError \<and>
   shell_cmds (trace (snd (main_ptx
         (\<lambda>_ _. Inr \<lparr>input_directory = ''/rois'', subject = ''s01'', output_directory = ''/out'',
           bedpost_directory = ''/data/bedpostx'', network = None, no_geometry_fix = False,
           cpu = False\<rparr>)
         [''-i'', ''/rois'', ''-s'', ''s01'', ''-o'', ''/out'', ''-b'', ''/data/bedpostx'']
         False ''20230207'' ''2023-02-07 10:00:00'' (\<lambda>c e f. (f, [], 0))
         \<lparr>fs = Map.empty, env = Map.empty, trace = []\<rparr>))) = []"
  using set_device_unbound_cuda [of "\<lparr>fs = Map.empty, env = Map.empty, trace = []\<rparr>"
      "\<lambda>_ _. Inr \<lparr>input_directory = ''/rois'', subject = ''s01'', output_directory = ''/out'',
           bedpost_directory = ''/data/bedpostx'', network = None, no_geometry_fix = False,
           cpu = False\<rparr>"
      "[''-i'', ''/rois'', ''-s'', ''s01'', ''-o'', ''/out'', ''-b'', ''/data/bedpostx'']"
      "\<lparr>input_directory = ''/rois'', subject = ''s01'', output_directory = ''/out'',
           bedpost_directory = ''/data/bedpostx'', network = None, no_geometry_fix = False,
           cpu = False\<rparr>"
      "''20230207''" "''2023-02-07 10:00:00''" "\<lambda>c e f. (f, [], 0)"]
  by simp

section \<open>The tractography command\<close>

text \<open>
  C9. For all inputs, \<^verbatim>\<open>build_probtrackx_command\<close> prints and hands to the shell,
  once, the command made of the selected binary path, \<^verbatim>\<open> -x \<close> and the network matrix
  path, \<^verbatim>\<open> -s \<close> and the bedpost directory joined with \<^verbatim>\<open>merged\<close>, \<^verbatim>\<open> -m \<close>
  and the bedpost directory joined with \<^verbatim>\<open>nodif_brain_mask\<close>, \<^verbatim>\<open> --dir=\<close> and the
  output directory, and the fixed flags; for a bedpost directory written without a
  trailing slash the two joined paths are that directory followed by \<^verbatim>\<open>/merged\<close>
  and \<^verbatim>\<open>/nodif_brain_mask\<close>.
\<close>

theorem build_probtrackx_command_string:
  "fst (build_probtrackx_command sh outdir bedpost net cuda dev w) = Inr () \<and>
   trace (snd (build_probtrackx_command sh outdir bedpost net cuda dev w)) =
     trace w @
       [Print (probtrackxCommand outdir bedpost net cuda),
        Shell (probtrackxCommand outdir bedpost net cuda) Inherit Inherit] \<and>
   probtrackxCommand outdir bedpost net cuda =
     (if cuda then ''/usr/pubsw/packages/fsl/6.0.5.1/bin/probtrackx2_gpu''
      else ''/usr/pubsw/packages/fsl/6.0.5.1/bin/probtrackx2'')
       @ '' -x '' @ net
       @ '' -s '' @ join bedpost ''merged''
       @ '' -m '' @ join bedpost ''nodif_brain_mask''
       @ '' --dir='' @ outdir
       @ '' -l -c 0.2 -S 2000 -P 5000 --fibthresh=0.01 --distthresh=0.0 --sampvox=0.0 --steplength=0.25 --forcedir --opd --network -V 1'' \<and>
   (bedpost \<noteq> [] \<and> last bedpost \<noteq> CHR ''/'' \<longrightarrow>
      join bedpost ''merged'' = bedpost @ ''/merged'' \<and>
      join bedpost ''nodif_brain_mask'' = bedpost @ ''/nodif_brain_mask'')"
proof -
  have run: "build_probtrackx_command sh outdir bedpost net cuda dev w =
      (Inr (), w\<lparr>fs := fst (sh (probtrackxCommand outdir bedpost net cuda) (env w) (fs w)),
                 trace := trace w @
                   [Print (probtrackxCommand outdir bedpost net cuda),
                    Shell (probtrackxCommand outdir bedpost net cuda) Inherit Inherit]\<rparr>)"
    by (simp add: build_probtrackx_command_def os_system_def run_shell_def py_defs
        split: prod.splits)
  have j: "bedpost \<noteq> [] \<Longrightarrow> last bedpost \<noteq> CHR ''/'' \<Longrightarrow>
      join bedpost ''merged'' = bedpost @ ''/merged'' \<and>
      join bedpost ''nodif_brain_mask'' = bedpost @ ''/nodif_brain_mask''"
    using join_plain [of "''merged''" bedpost] join_plain [of "''nodif_brain_mask''" bedpost]
    by (simp add: sep_def)
  show ?thesis
    using j by (simp add: run probtrackxCommand_def probtrackx_version_def)
qed

theorem build_probtrackx_command_string_witness:
  "''/data/bedpostx'' \<noteq> [] \<and> last ''/data/bedpostx'' \<noteq> CHR ''/'' \<and>
   trace (snd (build_probtrackx_command (\<lambda>c e f. (f, [], 0)) ''/out/s01.probtrackx.network.20230207''
       ''/data/bedpostx'' ''/rois/s01_network_20230207.txt'' True Cuda
       \<lparr>fs = Map.empty, env = Map.empty, trace = []\<rparr>)) =
     [Print ''/usr/pubsw/packages/fsl/6.0.5.1/bin/probtrackx2_gpu -x /rois/s01_network_20230207.txt -s /data/bedpostx/merged -m /data/bedpostx/nodif_brain_mask --dir=/out/s01.probtrackx.network.20230207 -l -c 0.2 -S 2000 -P 5000 --fibthresh=0.01 --distthresh=0.0 --sampvox=0.0 --steplength=0.25 --forcedir --opd --network -V 1'',
      Shell ''/usr/pubsw/packages/fsl/6.0.5.1/bin/probtrackx2_gpu -x /rois/s01_network_20230207.txt -s /data/bedpostx/merged -m /data/bedpostx/nodif_brain_mask --dir=/out/s01.probtrackx.network.20230207 -l -c 0.2 -S 2000 -P 5000 --fibthresh=0.01 --distthresh=0.0 --sampvox=0.0 --steplength=0.25 --forcedir --opd --network -V 1'' Inherit Inherit]"
  using build_probtrackx_command_string [of "\<lambda>c e f. (f, [], 0)" "''/out/s01.probtrackx.network.20230207''"
       "''/data/bedpostx''" "''/rois/s01_network_20230207.txt''" True Cuda
       "\<lparr>fs = Map.empty, env = Map.empty, trace = []\<rparr>"]
  by simp

section \<open>Facts about paths and the file system\<close>

lemma suffix_past_char: "c \<notin> set s \<Longrightarrow> suffix s (p @ c # n) = suffix s n"
  by (auto simp: suffix_append suffix_Cons)

lemma endswith_join:
  assumes "sep \<notin> set x" and "x \<noteq> []"
  shows "endswith (join p n) x = endswith n x"
proof (cases "startswith n [sep]")
  case True
  then show ?thesis by (simp add: join_def)
next
  case False
  show ?thesis
  proof (cases "p = []")
    case True
    with False show ?thesis by (simp add: join_def)
  next
    case nonempty: False
    show ?thesis
    proof (cases "endswith p [sep]")
      case True
      then obtain q where "p = q @ [sep]"
        by (auto simp: endswith_def suffix_def)
      with False assms show ?thesis
        by (simp add: join_def endswith_def suffix_past_char)
    next
      case no_slash: False
      with False nonempty assms show ?thesis
        by (simp add: join_def endswith_def suffix_past_char)
    qed
  qed
qed

lemma nii_gz_not_nii: "endswith n ''.nii.gz'' \<Longrightarrow> \<not> endswith n ''.nii''"
proof
  assume "endswith n ''.nii.gz''" and "endswith n ''.nii''"
  then have "suffix ''.nii.gz'' ''.nii'' \<or> suffix ''.nii'' ''.nii.gz''"
    unfolding endswith_def by (rule suffix_same_cases)
  then show False by (simp add: suffix_Cons)
qed

lemma split_on_nonempty: "split_on c xs \<noteq> []"
  by (induction xs) (auto split: list.splits)

lemma split_on_none: "c \<notin> set b \<Longrightarrow> split_on c b = [b]"
  by (induction b) auto

lemma split_on_append: "split_on c (a @ c # b) = split_on c a @ split_on c b"
proof (induction a)
  case Nil
  show ?case by simp
next
  case (Cons x a)
  then show ?case
    using split_on_nonempty [of c a] by (cases "split_on c a") auto
qed

lemma resolve_join:
  assumes "sep \<notin> set b" and "b \<noteq> []" and "b \<noteq> ''.''" and "a \<noteq> []"
  shows "resolve (join a b) = (fst (resolve a), snd (resolve a) @ [b])"
proof -
  from assms have ns: "\<not> startswith b [sep]"
    by (cases b) (auto simp: startswith_def)
  show ?thesis
  proof (cases "endswith a [sep]")
    case True
    then obtain q where q: "a = q @ [sep]"
      by (auto simp: endswith_def suffix_def)
    have "startswith (q @ sep # b) [sep] = startswith (q @ [sep]) [sep]"
      by (cases q) (simp_all add: startswith_def)
    with ns True assms q show ?thesis
      by (simp add: join_def resolve_def split_on_append split_on_none)
  next
    case False
    have "startswith (a @ sep # b) [sep] = startswith a [sep]"
      using assms(4) by (cases a) (simp_all add: startswith_def)
    with ns False assms show ?thesis
      by (simp add: join_def resolve_def split_on_append split_on_none)
  qed
qed

lemma network_file_name_plain:
  assumes "sep \<notin> set subj" and "sep \<notin> set date"
  shows "sep \<notin> set (subj @ ''_network_'' @ date @ ''.txt'')"
    and "subj @ ''_network_'' @ date @ ''.txt'' \<noteq> []"
    and "subj @ ''_network_'' @ date @ ''.txt'' \<noteq> ''.''"
proof -
  show "sep \<notin> set (subj @ ''_network_'' @ date @ ''.txt'')"
    using assms by (simp add: sep_def)
  show "subj @ ''_network_'' @ date @ ''.txt'' \<noteq> []" by simp
  have "length (subj @ ''_network_'' @ date @ ''.txt'') \<noteq> length ''.''" by simp
  then show "subj @ ''_network_'' @ date @ ''.txt'' \<noteq> ''.''" by metis
qed

lemma is_dir_iff: "is_dir n = (\<exists>es. n = Some (Dir es))"
  by (cases n rule: is_dir.cases) simp_all

lemma is_file_iff: "is_file n = (\<exists>s. n = Some (File s))"
  by (cases n rule: is_file.cases) simp_all

lemma add_entry_other: "x \<noteq> parent k \<Longrightarrow> add_entry f k x = f x"
  by (simp add: add_entry_def split: option.splits node.splits)

lemma add_entry_parent: "is_dir (f (parent k)) \<Longrightarrow> is_dir (add_entry f k (parent k))"
  by (auto simp: add_entry_def is_dir_iff split: option.splits node.splits)

lemma add_entry_is_file: "is_file (add_entry f k x) = is_file (f x)"
  by (cases "x = parent k")
     (auto simp: add_entry_def is_file_iff split: option.splits node.splits)

lemma mkdir_key_ok:
  assumes "snd k \<noteq> []" and "f k = None" and "is_dir (f (parent k))"
  shows "mkdir_key f k = Inr ((add_entry f k)(k \<mapsto> Dir []))"
  using assms by (auto simp: mkdir_key_def is_dir_iff)

lemma makedirs_from_ok:
  assumes "is_dir (f (a, pre))" and "cs \<noteq> []" and "f (a, pre @ cs) = None"
    and "\<forall>j. 0 < j \<and> j < length cs \<longrightarrow> \<not> is_file (f (a, pre @ take j cs))"
  shows "\<exists>f'. makedirs_from f a pre cs = Inr f'"
  using assms
proof (induction cs arbitrary: f pre)
  case Nil
  then show ?case by simp
next
  case (Cons c cs)
  let ?k = "(a, pre @ [c])"
  show ?case
  proof (cases "cs = []")
    case True
    with Cons.prems have none: "f ?k = None" by simp
    have "mkdir_key f ?k = Inr ((add_entry f ?k)(?k \<mapsto> Dir []))"
      using none Cons.prems(1) by (intro mkdir_key_ok) (simp_all add: parent_def)
    with none True show ?thesis by simp
  next
    case False
    have nofile: "\<not> is_file (f ?k)"
      using Cons.prems(4) False by (auto dest: spec [of _ 1])
    have below: "\<forall>j. 0 < j \<and> j < length cs \<longrightarrow> \<not> is_file (f (a, (pre @ [c]) @ take j cs))"
    proof (intro allI impI)
      fix j assume "0 < j \<and> j < length cs"
      then have "0 < Suc j \<and> Suc j < length (c # cs)" by simp
      then have "\<not> is_file (f (a, pre @ take (Suc j) (c # cs)))"
        using Cons.prems(4) by blast
      then show "\<not> is_file (f (a, (pre @ [c]) @ take j cs))" by simp
    qed
    show ?thesis
    proof (cases "f ?k")
      case None
      have mk: "mkdir_key f ?k = Inr ((add_entry f ?k)(?k \<mapsto> Dir []))"
        using None Cons.prems(1) by (intro mkdir_key_ok) (simp_all add: parent_def)
      let ?f = "(add_entry f ?k)(?k \<mapsto> Dir [])"
      have p: "parent ?k = (a, pre)" by (simp add: parent_def)
      have 1: "is_dir (?f (a, pre @ [c]))" by simp
      have 2: "?f (a, (pre @ [c]) @ cs) = None"
        using Cons.prems(3) False by (simp add: add_entry_other p)
      have 3: "\<forall>j. 0 < j \<and> j < length cs \<longrightarrow> \<not> is_file (?f (a, (pre @ [c]) @ take j cs))"
        using below by (simp add: add_entry_is_file)
      from Cons.IH [OF 1 False 2 3] obtain f' where
        "makedirs_from ?f a (pre @ [c]) cs = Inr f'" by blast
      then have "makedirs_from f a pre (c # cs) = Inr f'"
        by (simp only: makedirs_from.simps None mk option.case sum.case)
      then show ?thesis by blast
    next
      case (Some n)
      with nofile obtain es where d: "f ?k = Some (Dir es)"
        by (cases n) simp_all
      then have 1: "is_dir (f (a, pre @ [c]))" by simp
      have 2: "f (a, (pre @ [c]) @ cs) = None"
        using Cons.prems(3) by simp
      from Cons.IH [OF 1 False 2 below] obtain f' where
        "makedirs_from f a (pre @ [c]) cs = Inr f'" by blast
      then have "makedirs_from f a pre (c # cs) = Inr f'"
        using False by (simp only: makedirs_from.simps d option.case node.case if_False)
      then show ?thesis by blast
    qed
  qed
qed

lemma makedirs_from_creates:
  "makedirs_from f a pre cs = Inr f' \<Longrightarrow> cs \<noteq> [] \<Longrightarrow> is_dir (f' (a, pre @ cs))"
proof (induction cs arbitrary: f pre)
  case Nil
  then show ?case by simp
next
  case (Cons c cs)
  show ?case
  proof (cases "cs = []")
    case True
    with Cons.prems show ?thesis
      by (auto simp: mkdir_key_def split: option.splits node.splits if_splits sum.splits)
  next
    case False
    with Cons.prems obtain g where "makedirs_from g a (pre @ [c]) cs = Inr f'"
      by (auto split: option.splits node.splits if_splits sum.splits)
    from Cons.IH [OF this False] show ?thesis by simp
  qed
qed

lemma no_file_aboveD:
  assumes "no_file_above f k"
  shows "is_dir (f (fst k, []))"
    and "\<forall>j. 0 < j \<and> j < length (snd k) \<longrightarrow> \<not> is_file (f (fst k, [] @ take j (snd k)))"
  using assms by (auto simp: no_file_above_def list_all_iff)

lemma os_makedirs_ok:
  assumes "d \<noteq> []" and "fs w (resolve d) = None" and "no_file_above (fs w) (resolve d)"
  shows "fst (os_makedirs d w) = Inr () \<and> is_dir (fs (snd (os_makedirs d w)) (resolve d)) \<and>
         trace (snd (os_makedirs d w)) = trace w @ [MakeDirs d]"
proof -
  obtain a cs where r: "resolve d = (a, cs)" by (cases "resolve d")
  have root: "is_dir (fs w (a, []))"
    using no_file_aboveD(1) [OF assms(3)] r by simp
  have ne: "cs \<noteq> []"
    using root assms(2) r by (auto simp: is_dir_iff)
  have "\<exists>f'. makedirs_from (fs w) a [] cs = Inr f'"
    using root ne assms(2) no_file_aboveD(2) [OF assms(3)] r
    by (intro makedirs_from_ok) simp_all
  then obtain f' where f': "makedirs_from (fs w) a [] cs = Inr f'" by blast
  from makedirs_from_creates [OF f' ne] have "is_dir (f' (a, cs))" by simp
  with f' ne assms(1) r show ?thesis
    by (simp add: os_makedirs_def)
qed

lemma os_mkdir_ok:
  assumes "d \<noteq> []" and "fs w (resolve d) = None" and "is_dir (fs w (parent (resolve d)))"
  shows "fst (os_mkdir d w) = Inr () \<and> is_dir (fs (snd (os_mkdir d w)) (resolve d)) \<and>
         trace (snd (os_mkdir d w)) = trace w @ [MkDir d]"
proof -
  have "snd (resolve d) \<noteq> []"
  proof
    assume "snd (resolve d) = []"
    then have "parent (resolve d) = resolve d"
      by (cases "resolve d") (simp add: parent_def)
    with assms(2,3) show False by simp
  qed
  then have "mkdir_key (fs w) (resolve d) = Inr ((add_entry (fs w) (resolve d))(resolve d \<mapsto> Dir []))"
    using assms(2,3) by (intro mkdir_key_ok)
  with assms(1) show ?thesis by (simp add: os_mkdir_def)
qed

section \<open>Runs of runProbtrackx2GPU.py\<close>

lemma shell_events_append [simp]: "shell_events (xs @ ys) = shell_events xs @ shell_events ys"
  by (induction xs rule: shell_events.induct) simp_all

lemma shell_cmds_shell_events [simp]: "shell_cmds (shell_events es) = shell_cmds es"
  by (induction es rule: shell_events.induct) simp_all

lemma shell_cmds_map_Shell [simp]: "shell_cmds (map (\<lambda>x. Shell (c x) out err) xs) = map c xs"
  by (induction xs) simp_all

lemma join_nonempty: "b \<noteq> [] \<Longrightarrow> join a b \<noteq> []"
  by (auto simp: join_def)

lemma grows_refl [simp]: "grows f f"
  by (simp add: grows_def)

lemma grows_file: "grows f f' \<Longrightarrow> f k = Some (File t) \<Longrightarrow> f' k = Some (File t)"
  unfolding grows_def by blast

lemma grows_dir: "grows f f' \<Longrightarrow> f k = Some (Dir es) \<Longrightarrow> \<exists>es'. f' k = Some (Dir es')"
  unfolding grows_def is_dir_iff by blast

lemma grows_path_exists:
  assumes "grows f f'" and "path_exists f p"
  shows "path_exists f' p"
proof (cases "f (resolve p)")
  case None
  with assms(2) show ?thesis
    by (simp add: path_exists_def node_at_def split: if_splits)
next
  case (Some n)
  show ?thesis
  proof (cases n)
    case (File t)
    with Some assms(2) grows_file [OF assms(1), of "resolve p" t] show ?thesis
      by (simp add: path_exists_def node_at_def split: if_splits)
  next
    case (Dir es)
    with Some assms(2) grows_dir [OF assms(1), of "resolve p" es] show ?thesis
      by (auto simp: path_exists_def node_at_def split: if_splits)
  qed
qed

lemma mkdir_key_grows:
  assumes "mkdir_key f k = Inr f'"
  shows "grows f f'"
proof -
  from assms have none: "f k = None" and f': "f' = (add_entry f k)(k \<mapsto> Dir [])"
    by (auto simp: mkdir_key_def split: if_splits option.splits node.splits)
  have "add_entry f k x = Some (File t)" if "f x = Some (File t)" for x t
    using that by (auto simp: add_entry_def split: option.splits node.splits)
  moreover have "is_dir (add_entry f k x)" if "is_dir (f x)" for x
    using that by (auto simp: add_entry_def is_dir_iff split: option.splits node.splits)
  ultimately show ?thesis
    using none unfolding grows_def f' by (auto simp: is_dir_iff)
qed

lemma device_configuration_run:
  assumes "use_cpu \<or> available"
  shows "\<exists>w'. device_configuration (\<not> use_cpu) available w =
            (Inr (if use_cpu then Cpu else Cuda, \<not> use_cpu), w') \<and>
          fs w' = fs w \<and> shell_events (trace w') = shell_events (trace w)"
  using assms
  by (auto simp: device_configuration_def set_device_def return_locals_def py_defs)

lemma set_up_environment_run:
  "\<exists>w'. set_up_environment w = (Inr (), w') \<and> fs w' = fs w \<and>
        shell_events (trace w') = shell_events (trace w)"
  by (simp add: set_up_environment_def print_environ_def py_defs)

lemma set_up_output_directory_run:
  assumes "d \<noteq> []"
    and "path_exists (fs w) d \<or> (fs w (resolve d) = None \<and> is_dir (fs w (parent (resolve d))))"
  shows "\<exists>w'. set_up_output_directory d w = (Inr (), w') \<and> grows (fs w) (fs w') \<and>
          shell_events (trace w') = shell_events (trace w)"
proof (cases "path_exists (fs w) d")
  case True
  then show ?thesis
    by (simp add: set_up_output_directory_def os_path_exists_def py_defs)
next
  case False
  with assms(2) have none: "fs w (resolve d) = None"
    and pd: "is_dir (fs w (parent (resolve d)))" by auto
  let ?w = "w\<lparr>trace := trace w @ [Print (spaced [''Creating output directory ->'', d])]\<rparr>"
  have ne: "snd (resolve d) \<noteq> []"
  proof
    assume "snd (resolve d) = []"
    then have "parent (resolve d) = resolve d"
      by (cases "resolve d") (simp add: parent_def)
    with none pd show False by simp
  qed
  have mk: "mkdir_key (fs w) (resolve d) = Inr ((add_entry (fs w) (resolve d))(resolve d \<mapsto> Dir []))"
    using ne none pd by (intro mkdir_key_ok)
  have g: "grows (fs w) ((add_entry (fs w) (resolve d))(resolve d \<mapsto> Dir []))"
    by (rule mkdir_key_grows [OF mk])
  show ?thesis
    using False assms(1) mk g
    by (simp add: set_up_output_directory_def os_path_exists_def os_mkdir_def py_defs)
qed

lemma for_each_shell_events:
  assumes ok: "\<And>x v. fst (body x v) = Inr ()"
    and tr: "\<And>x v. shell_events (trace (snd (body x v))) = shell_events (trace v) @ [c x]"
  shows "fst (for_each xs body w) = Inr () \<and>
         shell_events (trace (snd (for_each xs body w))) = shell_events (trace w) @ map c xs"
proof (induction xs arbitrary: w)
  case Nil
  show ?case by (simp add: ret_def)
next
  case (Cons x xs)
  have "for_each (x # xs) body w = for_each xs body (snd (body x w))"
    by (rule for_each_step) (rule ok)
  then show ?case
    using Cons.IH [of "snd (body x w)"] by (simp add: tr)
qed

lemma geometry_body:
  "fst (block [print_args [''Working on'', line],
          discard (os_system sh (''fslcpgeom '' @ msk @ '' '' @ line))] v) = Inr () \<and>
   shell_events (trace (snd (block [print_args [''Working on'', line],
          discard (os_system sh (''fslcpgeom '' @ msk @ '' '' @ line))] v))) =
     shell_events (trace v) @ [Shell (''fslcpgeom '' @ msk @ '' '' @ line) Inherit Inherit]"
  by (simp add: discard_os_system_run bind_def ret_def print_args_def print_def emit_def)

lemma for_each_fslcpgeom:
  "fst (for_each ls (\<lambda>line. block [print_args [''Working on'', line],
          discard (os_system sh (''fslcpgeom '' @ msk @ '' '' @ line))]) w) = Inr () \<and>
   shell_events (trace (snd (for_each ls (\<lambda>line. block [print_args [''Working on'', line],
          discard (os_system sh (''fslcpgeom '' @ msk @ '' '' @ line))]) w))) =
     shell_events (trace w) @
       map (\<lambda>line. Shell (''fslcpgeom '' @ msk @ '' '' @ line) Inherit Inherit) ls"
  by (rule for_each_shell_events) (simp_all only: geometry_body)

text \<open>
  \<^verbatim>\<open>set_geometry\<close> where it goes through: the mask exists and the network file is a
  regular file of well-formed UTF-8.
\<close>

lemma set_geometry_run:
  assumes "path_exists (fs w) (join bedpost ''nodif_brain_mask.nii.gz'')"
    and "network_file \<noteq> []" and "\<not> dir_form network_file"
    and "fs w (resolve network_file) = Some (File txt)" and "valid_utf8 txt"
  shows "fst (set_geometry sh bedpost network_file w) = Inr () \<and>
         shell_events (trace (snd (set_geometry sh bedpost network_file w))) =
           shell_events (trace w) @
             map (\<lambda>line. Shell (''fslcpgeom '' @ join bedpost ''nodif_brain_mask.nii.gz''
                    @ '' '' @ line) Inherit Inherit) (readlines txt)"
proof -
  have e: "path_exists (fs w) network_file"
    using assms(2-4) by (simp add: path_exists_def node_at_def)
  define msk where "msk = join bedpost ''nodif_brain_mask.nii.gz''"
  define body where "body = (\<lambda>line. block [print_args [''Working on'', line],
          discard (os_system sh (''fslcpgeom '' @ msk @ '' '' @ line))])"
  define w1 where "w1 = w\<lparr>trace := trace w @ [Print (spaced [''Diffusion Mask Volume == '', msk]),
      Print (spaced [''ROI Network List == '', network_file])]\<rparr>"
  have body_eq: "(\<lambda>line. block [print_args [''Working on'', line],
          discard (os_system sh (''fslcpgeom '' @ msk @ '' '' @ line))]) = body"
    by (simp add: body_def)
  have sg: "set_geometry sh bedpost network_file w = for_each (readlines txt) body w1"
    unfolding set_geometry_def Let_def msk_def [symmetric] body_eq
    using assms e
    by (simp add: msk_def w1_def os_path_exists_def open_readlines_def py_defs
        split: prod.splits sum.splits)
  have fe: "fst (for_each (readlines txt) body w1) = Inr () \<and>
      shell_events (trace (snd (for_each (readlines txt) body w1))) =
        shell_events (trace w1) @
          map (\<lambda>line. Shell (''fslcpgeom '' @ msk @ '' '' @ line) Inherit Inherit) (readlines txt)"
    unfolding body_def by (rule for_each_fslcpgeom)
  have "shell_events (trace w1) = shell_events (trace w)"
    by (simp add: w1_def)
  with fe show ?thesis
    by (simp only: sg msk_def)
qed

lemma build_probtrackx_command_run:
  "fst (build_probtrackx_command sh outdir bedpost net cuda dev w) = Inr () \<and>
   trace (snd (build_probtrackx_command sh outdir bedpost net cuda dev w)) =
     trace w @ [Print (probtrackxCommand outdir bedpost net cuda),
                Shell (probtrackxCommand outdir bedpost net cuda) Inherit Inherit]"
  by (simp add: build_probtrackx_command_def discard_os_system_run bind_def ret_def
      print_def emit_def)

text \<open>
  A run of \<^verbatim>\<open>main\<close> that goes through, with the network file given by
  \<^verbatim>\<open>--network\<close>: the device is found, the output directory exists or can be made, and
  (unless the geometry fix is skipped) the mask exists and the network file is a regular
  file of well-formed UTF-8. The runs of the shell are then one \<^verbatim>\<open>fslcpgeom\<close> per
  line of the network file (none if the fix is skipped), then the tractography command,
  each once, each with the streams inherited.
\<close>

lemma main_ptx_run:
  assumes pa: "ap ptx_parser argv = Inr args"
    and dev: "cpu args \<or> available"
    and out: "path_exists (fs w) (join (output_directory args) (subject args @ ''.probtrackx.network.'' @ currentDate))
              \<or> (fs w (resolve (join (output_directory args) (subject args @ ''.probtrackx.network.'' @ currentDate))) = None
                  \<and> is_dir (fs w (parent (resolve (join (output_directory args) (subject args @ ''.probtrackx.network.'' @ currentDate))))))"
    and net: "network args = Some nf"
    and geo: "no_geometry_fix args \<or>
              (path_exists (fs w) (join (bedpost_directory args) ''nodif_brain_mask.nii.gz'') \<and>
               nf \<noteq> [] \<and> \<not> dir_form nf \<and> fs w (resolve nf) = Some (File txt) \<and> valid_utf8 txt)"
  shows "fst (main_ptx ap argv available currentDate now sh w) = Inr () \<and>
         shell_events (trace (snd (main_ptx ap argv available currentDate now sh w))) =
           shell_events (trace w) @ geometry_expected args nf txt @
             [Shell (probtrackxCommand
                (join (output_directory args) (subject args @ ''.probtrackx.network.'' @ currentDate))
                (bedpost_directory args) nf (\<not> cpu args)) Inherit Inherit]"
proof -
  define outd where
    "outd = join (output_directory args) (subject args @ ''.probtrackx.network.'' @ currentDate)"
  note out' = out [folded outd_def]
  let ?dev = "if cpu args then Cpu else Cuda"
  have p: "parse_args_ptx ap argv = ret args"
    using pa by (simp add: parse_args_ptx_def ret_def)
  obtain w1 where w1: "device_configuration (\<not> cpu args) available w = (Inr (?dev, \<not> cpu args), w1)"
    "fs w1 = fs w" "shell_events (trace w1) = shell_events (trace w)"
    using device_configuration_run [OF dev] by blast
  obtain w2 where w2: "set_up_environment w1 = (Inr (), w2)"
    "fs w2 = fs w1" "shell_events (trace w2) = shell_events (trace w1)"
    using set_up_environment_run by blast
  have "outd \<noteq> []" unfolding outd_def by (intro join_nonempty) simp
  then obtain w3 where w3: "set_up_output_directory outd w2 = (Inr (), w3)"
    "grows (fs w2) (fs w3)" "shell_events (trace w3) = shell_events (trace w2)"
    using set_up_output_directory_run [of outd w2] out' w2(2) w1(2) by auto
  have g: "grows (fs w) (fs w3)"
    using w3(2) w2(2) w1(2) by simp
  define w4 where "w4 = w3\<lparr>trace := trace w3 @ [Print [],
      Print (spaced [''------------------- Begin Processing '', now, ''-------------------'']),
      Print (spaced [''Skip ROI List Generation,'', nf, ''provided as ROI list.''])]\<rparr>"
  have w4: "fs w4 = fs w3" "shell_events (trace w4) = shell_events (trace w)"
    using w3(3) w2(3) w1(3) by (simp_all add: w4_def)
  define geo_step where "geo_step =
       (if no_geometry_fix args then
          print ''Skip Geometry has been set - will NOT copy geometry from diffusion mask to ROIs.''
        else
          block
            [print ''Copying Diffusion Mask Geometry to ROI'',
             set_geometry sh (bedpost_directory args) nf])"
  define build where
    "build = build_probtrackx_command sh outd (bedpost_directory args) nf (\<not> cpu args) ?dev"
  define tail where
    "tail = block [geo_step, print ''Running Probtrackx2'', build, print ''Done!'']"
  have calls: "main_function_calls sh now args currentDate outd (\<not> cpu args) ?dev w3 = tail w4"
    by (simp add: main_function_calls_def net w4_def tail_def geo_step_def build_def py_defs)
  have run: "main_ptx ap argv available currentDate now sh w = tail w4"
    unfolding main_ptx_def p bind_ret Let_def outd_def [symmetric]
    by (simp add: bind_def ret_def w1(1) w2(1) w3(1) calls split: prod.splits sum.splits)
  obtain w5 where w5: "geo_step w4 = (Inr (), w5)"
    "shell_events (trace w5) = shell_events (trace w) @ geometry_expected args nf txt"
  proof (cases "no_geometry_fix args")
    case True
    show ?thesis
      by (rule that [of "w4\<lparr>trace := trace w4 @ [Print ''Skip Geometry has been set - will NOT copy geometry from diffusion mask to ROIs.'']\<rparr>"])
         (simp_all add: True w4 geo_step_def geometry_expected_def py_defs)
  next
    case False
    with geo have h: "path_exists (fs w) (join (bedpost_directory args) ''nodif_brain_mask.nii.gz'')"
      "nf \<noteq> []" "\<not> dir_form nf" "fs w (resolve nf) = Some (File txt)" "valid_utf8 txt"
      by auto
    let ?v = "w4\<lparr>trace := trace w4 @ [Print ''Copying Diffusion Mask Geometry to ROI'']\<rparr>"
    have sg: "fst (set_geometry sh (bedpost_directory args) nf ?v) = Inr () \<and>
         shell_events (trace (snd (set_geometry sh (bedpost_directory args) nf ?v))) =
           shell_events (trace ?v) @
             map (\<lambda>line. Shell (''fslcpgeom '' @ join (bedpost_directory args) ''nodif_brain_mask.nii.gz''
                    @ '' '' @ line) Inherit Inherit) (readlines txt)"
      using h g w4(1)
      by (intro set_geometry_run) (simp_all add: grows_path_exists grows_file)
    have gs: "geo_step w4 = (Inr (), snd (set_geometry sh (bedpost_directory args) nf ?v))"
      using sg False
      by (cases "set_geometry sh (bedpost_directory args) nf ?v")
         (simp add: geo_step_def py_defs)
    show ?thesis
      by (rule that [OF gs]) (use sg False in \<open>simp add: w4 geometry_expected_def\<close>)
  qed
  have b: "fst (build v) = Inr () \<and>
     shell_events (trace (snd (build v))) =
       shell_events (trace v) @ [Shell (probtrackxCommand outd (bedpost_directory args) nf (\<not> cpu args)) Inherit Inherit]"
    for v
    using build_probtrackx_command_run [of sh outd "bedpost_directory args" nf "\<not> cpu args" ?dev v]
    by (simp add: build_def)
  let ?v5 = "w5\<lparr>trace := trace w5 @ [Print ''Running Probtrackx2'']\<rparr>"
  have "tail w4 = (Inr (), (snd (build ?v5))\<lparr>trace := trace (snd (build ?v5)) @ [Print ''Done!'']\<rparr>)"
    unfolding tail_def
    using b [of ?v5]
    by (cases "build ?v5") (simp add: bind_def ret_def print_def emit_def w5(1))
  with b [of ?v5] w5(2) show ?thesis
    unfolding outd_def [symmetric] by (simp add: run)
qed

section \<open>The events of a run of runProbtrackx2GPU.py\<close>

text \<open>
  Whatever the command line and the world, a run of \<^verbatim>\<open>main\<close> emits only prints,
  changes of the environment, the creation of a directory, the writing of a file, and
  runs of the shell through \<^verbatim>\<open>os.system\<close> of a \<^verbatim>\<open>fslcpgeom\<close> command or of the
  tractography command.
\<close>

lemma emits_parse_args_ptx: "emits P (parse_args_ptx ap argv)"
  by (simp add: emits_def parse_args_ptx_def)

lemma emits_main_ptx_events:
  assumes pr: "\<And>s. P (Print s)" and cs: "\<And>a. P (ConsoleSuccess a)"
    and mk: "\<And>p. P (MkDir p)" and wf: "\<And>p c. P (WriteFile p c)" and se: "\<And>k v. P (SetEnv k v)"
    and geo: "\<And>m l. P (Shell (''fslcpgeom '' @ m @ '' '' @ l) Inherit Inherit)"
    and trk: "\<And>outdir b n c. P (Shell (probtrackxCommand outdir b n c) Inherit Inherit)"
  shows "emits P (main_ptx ap argv available currentDate now sh)"
proof -
  have dc: "emits P (device_configuration use_gpu available)" for use_gpu
    unfolding device_configuration_def
    by (intro emits_bind emits_if emits_case_prod emits_set_device emits_print
        emits_console_success emits_ret pr cs se)
  have pe: "emits P (print_environ l k)" for l k
    unfolding print_environ_def by (intro emits_bind emits_environ_get emits_print_args pr)
  have env: "emits P set_up_environment"
    unfolding set_up_environment_def
    by (intro emits_block) (auto intro!: pr se pe)
  have out: "emits P (set_up_output_directory d)" for d
    unfolding set_up_output_directory_def
    by (intro emits_bind emits_os_path_exists emits_if emits_block)
       (auto intro!: pr mk)
  have sg: "emits P (set_geometry sh b nf)" for b nf
    unfolding set_geometry_def Let_def block.simps
    by (intro emits_bind emits_os_path_exists emits_if emits_ret emits_print_args
        emits_open_readlines emits_for_each emits_discard emits_os_system pr geo)
  have bp: "emits P (build_probtrackx_command sh outdir b nf cuda dev)" for outdir b nf cuda dev
    unfolding build_probtrackx_command_def
    by (intro emits_block) (auto intro!: emits_discard emits_os_system pr trk)
  have gr: "emits P (get_roi_list roi_path subj date)" for roi_path subj date
    unfolding get_roi_list_def Let_def
    by (intro emits_bind emits_os_listdir emits_write_file emits_ret wf)
  have calls: "emits P (main_function_calls sh now args currentDate outdir cuda dev)"
    for args outdir cuda dev
    unfolding main_function_calls_def
    by (auto simp del: block.simps intro!: pr gr sg bp)
  show ?thesis
    unfolding main_ptx_def Let_def
    by (intro emits_bind emits_case_prod emits_block emits_parse_args_ptx dc)
       (auto intro!: env out calls)
qed

text \<open>The equations by which a run of \<^verbatim>\<open>main\<close> on a given world is evaluated.\<close>

lemmas run_eval = main_ptx_def parse_args_ptx_def device_configuration_def set_up_environment_def
  print_environ_def set_up_output_directory_def main_function_calls_def get_roi_list_def
  set_geometry_def build_probtrackx_command_def discard_os_system_run os_mkdir_def mkdir_key_def
  add_entry_def parent_def write_file_def open_readlines_def os_listdir_def os_path_exists_def
  str_opt_def str_device_def spaced_def ret_def raise_def bind_def emit_def print_def
  console_success_def environ_set_def environ_get_def print_args_def path_eval Let_def
  written_def write_outcome_def utf8_eval read_eval probtrackxCommand_def probtrackx_version_def

section \<open>The geometry fix\<close>

lemma shell_cmds_list_all:
  "list_all (\<lambda>e. \<not> runs_fslcpgeom e) es \<Longrightarrow> \<forall>c\<in>set (shell_cmds es). \<not> invokes c ''fslcpgeom''"
  by (induction es rule: shell_cmds.induct) simp_all

lemma probtrackx_not_fslcpgeom: "\<not> invokes (probtrackxCommand outdir bedpost net cuda) ''fslcpgeom''"
  by (simp add: invokes_def command_word_def probtrackxCommand_def probtrackx_version_def
      endswith_def sep_def suffix_Cons)

lemma emits_get_roi_list: "(\<And>p c. P (WriteFile p c)) \<Longrightarrow> emits P (get_roi_list roi_path subj date)"
  unfolding get_roi_list_def Let_def by (intro emits_bind emits_os_listdir emits_write_file emits_ret)

lemma emits_build_no_fslcpgeom:
  "emits (\<lambda>e. \<not> runs_fslcpgeom e) (build_probtrackx_command sh outdir bedpost net cuda dev)"
  unfolding build_probtrackx_command_def
  by (auto simp: probtrackx_not_fslcpgeom simp del: block.simps)

lemma emits_main_skip_geometry:
  assumes "ap ptx_parser argv = Inr args" and "no_geometry_fix args"
  shows "emits (\<lambda>e. \<not> runs_fslcpgeom e) (main_ptx ap argv available currentDate now sh)"
proof -
  let ?P = "\<lambda>e. \<not> runs_fslcpgeom e"
  have pa: "parse_args_ptx ap argv = ret args"
    using assms(1) by (simp add: parse_args_ptx_def ret_def)
  have dc: "emits ?P (device_configuration use_gpu available)" for use_gpu
    unfolding device_configuration_def
    by (intro emits_bind emits_if emits_case_prod emits_set_device emits_print
        emits_console_success emits_ret) simp_all
  have env: "emits ?P set_up_environment"
    unfolding set_up_environment_def print_environ_def
    by (auto simp del: block.simps)
  have out: "emits ?P (set_up_output_directory outdir)" for outdir
    unfolding set_up_output_directory_def
    by (auto simp del: block.simps)
  have calls: "emits ?P (main_function_calls sh now args currentDate outdir cuda dev)" for outdir cuda dev
    unfolding main_function_calls_def using assms(2)
    by (auto simp del: block.simps intro!: emits_get_roi_list emits_build_no_fslcpgeom)
  show ?thesis
    unfolding main_ptx_def pa bind_ret Let_def
    by (intro emits_bind emits_case_prod emits_block) (auto simp: dc env out calls)
qed

lemma set_geometry_absent:
  assumes "\<not> path_exists (fs w) (join bedpost ''nodif_brain_mask.nii.gz'') \<or>
           \<not> path_exists (fs w) network_file"
  shows "set_geometry sh bedpost network_file w = (Inr (), w)"
  using assms by (auto simp: set_geometry_def os_path_exists_def py_defs Let_def)

text \<open>
  \<^verbatim>\<open>set_geometry\<close> where the network file exists and cannot be read as text: it has
  made its two prints and raises before any command.
\<close>

lemma set_geometry_unreadable:
  assumes "path_exists (fs w) (join bedpost ''nodif_brain_mask.nii.gz'')"
    and "network_file \<noteq> []"
    and "(\<exists>es. fs w (resolve network_file) = Some (Dir es)) \<or>
         (\<exists>txt. fs w (resolve network_file) = Some (File txt) \<and> \<not> dir_form network_file \<and>
                \<not> valid_utf8 txt)"
  shows "fst (set_geometry sh bedpost network_file w) =
           Inl (if (\<exists>es. fs w (resolve network_file) = Some (Dir es)) then IsADirectoryError
                else UnicodeDecodeError) \<and>
         shell_cmds (trace (snd (set_geometry sh bedpost network_file w))) = shell_cmds (trace w) \<and>
         fs (snd (set_geometry sh bedpost network_file w)) = fs w"
proof -
  have e: "path_exists (fs w) network_file"
    using assms(2,3) by (auto simp: path_exists_def node_at_def)
  show ?thesis
    using assms e
    by (auto simp: set_geometry_def Let_def os_path_exists_def open_readlines_def py_defs)
qed




section \<open>The ROI list\<close>

lemma valid_utf8_snoc_ascii: "byte c < 0x80 \<Longrightarrow> valid_utf8 (s @ [c]) = valid_utf8 s"
  by (induction s rule: valid_utf8.induct)
     (auto simp: continuation_def second_of_three_def second_of_four_def split: list.splits)

lemma valid_utf8_line: "valid_utf8 (item @ [LF]) = valid_utf8 item"
  by (rule valid_utf8_snoc_ascii) (simp add: LF_def byte_def)

lemma written_lines:
  "written (map (\<lambda>item. item @ [LF]) items) =
     concat (map (\<lambda>item. item @ [LF]) (takeWhile valid_utf8 items))"
  by (simp add: written_def takeWhile_map o_def valid_utf8_line)

lemma write_outcome_lines:
  "write_outcome (map (\<lambda>item. item @ [LF]) items) =
     (if list_all valid_utf8 items then Inr () else Inl UnicodeEncodeError)"
  by (simp add: write_outcome_def list_all_iff valid_utf8_line)

lemma last_split_join:
  assumes "sep \<notin> set b" and "a \<noteq> []"
  shows "last (split_on sep (join a b)) = b"
proof -
  from assms have ns: "\<not> startswith b [sep]"
    by (cases b) (auto simp: startswith_def)
  show ?thesis
  proof (cases "endswith a [sep]")
    case True
    then obtain q where q: "a = q @ [sep]"
      by (auto simp: endswith_def suffix_def)
    with ns True assms show ?thesis
      using split_on_nonempty [of sep q]
      by (simp add: join_def split_on_append split_on_none)
  next
    case False
    with ns assms show ?thesis
      using split_on_nonempty [of sep a]
      by (simp add: join_def split_on_append split_on_none)
  qed
qed

lemma write_file_run:
  assumes "p \<noteq> []" and "snd (resolve p) \<noteq> []" and "\<not> dir_form p"
    and "fs w (parent (resolve p)) = Some (Dir es)"
    and "\<forall>ds. fs w (resolve p) \<noteq> Some (Dir ds)"
  shows "fst (write_file p items w) = write_outcome items \<and>
         fs (snd (write_file p items w)) (resolve p) = Some (File (written items)) \<and>
         trace (snd (write_file p items w)) = trace w @ [WriteFile p (written items)]"
  using assms by (auto simp: write_file_def split: option.splits node.splits)

text \<open>
  C6, as stated: for every input directory, \<^verbatim>\<open>get_roi_list\<close> returns the entries that
  end with \<^verbatim>\<open>.nii\<close> and writes that list to the network file. It fails for a directory
  that holds a \<^verbatim>\<open>.nii\<close> entry whose name is not well-formed UTF-8: the text-mode
  \<^verbatim>\<open>f.write\<close> raises \<^verbatim>\<open>UnicodeEncodeError\<close>, nothing is returned, and the network
  file, already created, is left empty.
\<close>

theorem get_roi_list_undecodable_name:
  "fst (get_roi_list ''/rois'' ''s01'' ''20230207''
         \<lparr>fs = [(True, []) \<mapsto> Dir [''rois''], (True, [''rois'']) \<mapsto> Dir [CHR 0xFF # ''.nii''],
                 (True, [''rois'', CHR 0xFF # ''.nii'']) \<mapsto> File []],
           env = Map.empty, trace = []\<rparr>) = Inl UnicodeEncodeError \<and>
   fs (snd (get_roi_list ''/rois'' ''s01'' ''20230207''
         \<lparr>fs = [(True, []) \<mapsto> Dir [''rois''], (True, [''rois'']) \<mapsto> Dir [CHR 0xFF # ''.nii''],
                 (True, [''rois'', CHR 0xFF # ''.nii'']) \<mapsto> File []],
           env = Map.empty, trace = []\<rparr>)) (True, [''rois'', ''s01_network_20230207.txt'']) =
     Some (File [])"
  by (simp add: get_roi_list_def os_listdir_def write_file_def add_entry_def parent_def
      written_def write_outcome_def utf8_eval LF_def bind_def ret_def Let_def path_eval)

text \<open>
  C6, amended. For an input directory that can be listed, a subject and a date without a
  slash (so that the network file lies in the input directory) and a network file path at
  which no directory stands: the entries selected are exactly those whose names end with
  \<^verbatim>\<open>.nii\<close>, in listing order, each joined with the input directory path, and an
  entry ending with \<^verbatim>\<open>.nii.gz\<close> is not among them. When all selected paths are
  well-formed UTF-8, \<^verbatim>\<open>get_roi_list\<close> returns that list and the path of the network
  text file, to which it has written the list, one path per line. When one is not, it
  raises \<^verbatim>\<open>UnicodeEncodeError\<close> and the network file holds the paths before the
  first such one.
\<close>

theorem get_roi_list_selects_nii:
  assumes "roi_path \<noteq> []" and "fs w (resolve roi_path) = Some (Dir es)"
    and "sep \<notin> set subj" and "sep \<notin> set date"
    and "\<forall>ds. fs w (resolve (join roi_path (subj @ ''_network_'' @ date @ ''.txt''))) \<noteq> Some (Dir ds)"
  shows "fst (get_roi_list roi_path subj date w) =
           (if list_all valid_utf8 (map (join roi_path) (filter (\<lambda>n. endswith n ''.nii'') es))
            then Inr (map (join roi_path) (filter (\<lambda>n. endswith n ''.nii'') es),
                      join roi_path (subj @ ''_network_'' @ date @ ''.txt''))
            else Inl UnicodeEncodeError) \<and>
         fs (snd (get_roi_list roi_path subj date w))
             (resolve (join roi_path (subj @ ''_network_'' @ date @ ''.txt''))) =
           Some (File (concat (map (\<lambda>item. item @ [LF])
             (takeWhile valid_utf8
                (map (join roi_path) (filter (\<lambda>n. endswith n ''.nii'') es)))))) \<and>
         list_all (\<lambda>n. endswith n ''.nii.gz'' \<longrightarrow>
             join roi_path n \<notin> set (map (join roi_path) (filter (\<lambda>n. endswith n ''.nii'') es))) es"
proof -
  let ?name = "subj @ ''_network_'' @ date @ ''.txt''"
  define nf where "nf = join roi_path ?name"
  define rois where "rois = map (join roi_path) (filter (\<lambda>n. endswith n ''.nii'') es)"
  define items where "items = map (\<lambda>item. item @ [LF]) rois"
  have sel: "filter (\<lambda>item. endswith item ''.nii'') (map (join roi_path) es) = rois"
    by (simp add: rois_def filter_map o_def endswith_join sep_def)
  note plain = network_file_name_plain [OF assms(3,4)]
  have r: "resolve nf = (fst (resolve roi_path), snd (resolve roi_path) @ [?name])"
    unfolding nf_def using plain assms(1) by (intro resolve_join)
  then have par: "parent (resolve nf) = resolve roi_path" and ne: "snd (resolve nf) \<noteq> []"
    by (simp_all add: parent_def)
  have nfne: "nf \<noteq> []"
    using assms(1) by (auto simp: nf_def join_def)
  have "last (split_on sep nf) = ?name"
    unfolding nf_def using plain(1) assms(1) by (rule last_split_join)
  then have nd: "\<not> dir_form nf"
    using plain(2,3) by (simp add: dir_form_def)
  have nodir: "\<forall>ds. fs w (resolve nf) \<noteq> Some (Dir ds)"
    using assms(5) by (simp add: nf_def)
  have wf: "fst (write_file nf items w) = write_outcome items \<and>
         fs (snd (write_file nf items w)) (resolve nf) = Some (File (written items)) \<and>
         trace (snd (write_file nf items w)) = trace w @ [WriteFile nf (written items)]"
    using nfne ne nd assms(2) nodir par by (intro write_file_run) simp_all
  have wo: "write_outcome items =
      (if list_all valid_utf8 rois then Inr () else Inl UnicodeEncodeError)"
    unfolding items_def by (rule write_outcome_lines)
  have wr: "written items = concat (map (\<lambda>item. item @ [LF]) (takeWhile valid_utf8 rois))"
    unfolding items_def by (rule written_lines)
  have ls: "os_listdir roi_path w = (Inr es, w)"
    using assms(1,2) by (simp add: os_listdir_def)
  obtain res v where wv: "write_file nf items w = (res, v)"
    by (cases "write_file nf items w")
  have run: "get_roi_list roi_path subj date w =
      (case res of Inl e \<Rightarrow> Inl e | Inr u \<Rightarrow> Inr (rois, nf), v)"
  proof -
    have "write_file nf (map (\<lambda>item. item @ [LF])
        (filter (\<lambda>item. endswith item ''.nii'') (map (join roi_path) es))) w = (res, v)"
      using wv unfolding items_def sel .
    then show ?thesis
      unfolding get_roi_list_def Let_def nf_def [symmetric]
      by (simp add: bind_def ls ret_def sel split: sum.splits)
  qed
  from wf wv have res: "res = write_outcome items"
    and fv: "fs v (resolve nf) = Some (File (written items))"
    by simp_all
  have 1: "fst (get_roi_list roi_path subj date w) =
      (if list_all valid_utf8 rois then Inr (rois, nf) else Inl UnicodeEncodeError)"
    by (simp add: run res wo)
  have 2: "fs (snd (get_roi_list roi_path subj date w)) (resolve nf) =
      Some (File (concat (map (\<lambda>item. item @ [LF]) (takeWhile valid_utf8 rois))))"
    by (simp add: run fv wr)
  have 3: "list_all (\<lambda>n. endswith n ''.nii.gz'' \<longrightarrow> join roi_path n \<notin> set rois) es"
  proof -
    have "join roi_path n \<notin> set rois" if "endswith n ''.nii.gz''" for n
    proof
      assume "join roi_path n \<in> set rois"
      then obtain m where m: "endswith m ''.nii''" "join roi_path n = join roi_path m"
        by (auto simp: rois_def)
      have "endswith (join roi_path n) ''.nii.gz''"
        using that by (simp add: endswith_join sep_def)
      moreover have "endswith (join roi_path m) ''.nii''"
        using m(1) by (simp add: endswith_join sep_def)
      ultimately show False
        using m(2) nii_gz_not_nii by metis
    qed
    then show ?thesis by (simp add: list_all_iff)
  qed
  from 1 2 3 show ?thesis
    unfolding nf_def rois_def by blast
qed

theorem get_roi_list_selects_nii_witness:
  "''/rois'' \<noteq> [] \<and>
   [(True, []) \<mapsto> Dir [''rois''],
            (True, [''rois'']) \<mapsto> Dir [''a.nii'', ''b.nii.gz'', ''notes.txt'', ''d.nii''],
            (True, [''rois'', ''a.nii'']) \<mapsto> File [], (True, [''rois'', ''b.nii.gz'']) \<mapsto> File [],
            (True, [''rois'', ''notes.txt'']) \<mapsto> File [], (True, [''rois'', ''d.nii'']) \<mapsto> File []] (resolve ''/rois'') =
     Some (Dir [''a.nii'', ''b.nii.gz'', ''notes.txt'', ''d.nii'']) \<and>
   sep \<notin> set ''s01'' \<and> sep \<notin> set ''20230207'' \<and>
   (\<forall>ds. [(True, []) \<mapsto> Dir [''rois''],
            (True, [''rois'']) \<mapsto> Dir [''a.nii'', ''b.nii.gz'', ''notes.txt'', ''d.nii''],
            (True, [''rois'', ''a.nii'']) \<mapsto> File [], (True, [''rois'', ''b.nii.gz'']) \<mapsto> File [],
            (True, [''rois'', ''notes.txt'']) \<mapsto> File [], (True, [''rois'', ''d.nii'']) \<mapsto> File []]
           (resolve (join ''/rois'' (''s01'' @ ''_network_'' @ ''20230207'' @ ''.txt''))) \<noteq> Some (Dir ds)) \<and>
   fst (get_roi_list ''/rois'' ''s01'' ''20230207''
         \<lparr>fs = [(True, []) \<mapsto> Dir [''rois''],
            (True, [''rois'']) \<mapsto> Dir [''a.nii'', ''b.nii.gz'', ''notes.txt'', ''d.nii''],
            (True, [''rois'', ''a.nii'']) \<mapsto> File [], (True, [''rois'', ''b.nii.gz'']) \<mapsto> File [],
            (True, [''rois'', ''notes.txt'']) \<mapsto> File [], (True, [''rois'', ''d.nii'']) \<mapsto> File []],
           env = Map.empty, trace = []\<rparr>) =
     Inr ([''/rois/a.nii'', ''/rois/d.nii''], ''/rois/s01_network_20230207.txt'') \<and>
   fs (snd (get_roi_list ''/rois'' ''s01'' ''20230207''
         \<lparr>fs = [(True, []) \<mapsto> Dir [''rois''],
            (True, [''rois'']) \<mapsto> Dir [''a.nii'', ''b.nii.gz'', ''notes.txt'', ''d.nii''],
            (True, [''rois'', ''a.nii'']) \<mapsto> File [], (True, [''rois'', ''b.nii.gz'']) \<mapsto> File [],
            (True, [''rois'', ''notes.txt'']) \<mapsto> File [], (True, [''rois'', ''d.nii'']) \<mapsto> File []],
           env = Map.empty, trace = []\<rparr>)) (True, [''rois'', ''s01_network_20230207.txt'']) =
     Some (File (''/rois/a.nii'' @ [LF] @ ''/rois/d.nii'' @ [LF])) \<and>
   [(True, []) \<mapsto> Dir [''rois''],
            (True, [''rois'']) \<mapsto> Dir [''a.nii'', CHR 0xFF # ''.nii'', ''d.nii''],
            (True, [''rois'', ''a.nii'']) \<mapsto> File [],
            (True, [''rois'', CHR 0xFF # ''.nii'']) \<mapsto> File [],
            (True, [''rois'', ''d.nii'']) \<mapsto> File []] (resolve ''/rois'') =
     Some (Dir [''a.nii'', CHR 0xFF # ''.nii'', ''d.nii'']) \<and>
   fst (get_roi_list ''/rois'' ''s01'' ''20230207''
         \<lparr>fs = [(True, []) \<mapsto> Dir [''rois''],
            (True, [''rois'']) \<mapsto> Dir [''a.nii'', CHR 0xFF # ''.nii'', ''d.nii''],
            (True, [''rois'', ''a.nii'']) \<mapsto> File [],
            (True, [''rois'', CHR 0xFF # ''.nii'']) \<mapsto> File [],
            (True, [''rois'', ''d.nii'']) \<mapsto> File []],
           env = Map.empty, trace = []\<rparr>) = Inl UnicodeEncodeError \<and>
   fs (snd (get_roi_list ''/rois'' ''s01'' ''20230207''
         \<lparr>fs = [(True, []) \<mapsto> Dir [''rois''],
            (True, [''rois'']) \<mapsto> Dir [''a.nii'', CHR 0xFF # ''.nii'', ''d.nii''],
            (True, [''rois'', ''a.nii'']) \<mapsto> File [],
            (True, [''rois'', CHR 0xFF # ''.nii'']) \<mapsto> File [],
            (True, [''rois'', ''d.nii'']) \<mapsto> File []],
           env = Map.empty, trace = []\<rparr>)) (True, [''rois'', ''s01_network_20230207.txt'']) =
     Some (File (''/rois/a.nii'' @ [LF]))"
  using get_roi_list_selects_nii [of "''/rois''"
      "\<lparr>fs = [(True, []) \<mapsto> Dir [''rois''],
            (True, [''rois'']) \<mapsto> Dir [''a.nii'', ''b.nii.gz'', ''notes.txt'', ''d.nii''],
            (True, [''rois'', ''a.nii'']) \<mapsto> File [], (True, [''rois'', ''b.nii.gz'']) \<mapsto> File [],
            (True, [''rois'', ''notes.txt'']) \<mapsto> File [], (True, [''rois'', ''d.nii'']) \<mapsto> File []],
           env = Map.empty, trace = []\<rparr>"
      "[''a.nii'', ''b.nii.gz'', ''notes.txt'', ''d.nii'']" "''s01''" "''20230207''"]
    get_roi_list_selects_nii [of "''/rois''"
      "\<lparr>fs = [(True, []) \<mapsto> Dir [''rois''],
            (True, [''rois'']) \<mapsto> Dir [''a.nii'', CHR 0xFF # ''.nii'', ''d.nii''],
            (True, [''rois'', ''a.nii'']) \<mapsto> File [],
            (True, [''rois'', CHR 0xFF # ''.nii'']) \<mapsto> File [],
            (True, [''rois'', ''d.nii'']) \<mapsto> File []],
           env = Map.empty, trace = []\<rparr>"
      "[''a.nii'', CHR 0xFF # ''.nii'', ''d.nii'']" "''s01''" "''20230207''"]
  by (simp add: path_eval utf8_eval)

section \<open>Directory set-up\<close>

lemma absent_not_exists: "fs w (resolve d) = None \<Longrightarrow> \<not> path_exists (fs w) d"
  by (simp add: path_exists_def node_at_def)

lemma dir_form_file_not_exists:
  "is_file (fs w (resolve d)) \<Longrightarrow> dir_form d \<Longrightarrow> \<not> path_exists (fs w) d"
  by (auto simp: path_exists_def node_at_def is_file_iff)

lemma makedirs_from_file:
  assumes "is_dir (f (a, pre))" and "j < length cs"
    and "is_file (f (a, pre @ take (Suc j) cs))"
    and "\<forall>i<j. \<not> is_file (f (a, pre @ take (Suc i) cs))"
  shows "makedirs_from f a pre cs =
           Inl (if Suc j = length cs then FileExistsError else NotADirectoryError)"
  using assms
proof (induction cs arbitrary: f pre j)
  case Nil
  then show ?case by simp
next
  case (Cons c cs)
  let ?k = "(a, pre @ [c])"
  show ?case
  proof (cases j)
    case 0
    with Cons.prems(3) obtain s where "f ?k = Some (File s)"
      by (auto simp: is_file_iff)
    with 0 show ?thesis by auto
  next
    case (Suc j')
    with Cons.prems(2) have j': "j' < length cs" and ne: "cs \<noteq> []" by auto
    have nofile: "\<not> is_file (f ?k)"
      using Cons.prems(4) Suc by (auto dest: spec [of _ 0])
    have fl: "is_file (f (a, (pre @ [c]) @ take (Suc j') cs))"
      using Cons.prems(3) Suc by simp
    have below: "\<forall>i<j'. \<not> is_file (f (a, (pre @ [c]) @ take (Suc i) cs))"
    proof (intro allI impI)
      fix i assume "i < j'"
      then have "Suc i < j" using Suc by simp
      then have "\<not> is_file (f (a, pre @ take (Suc (Suc i)) (c # cs)))"
        using Cons.prems(4) by blast
      then show "\<not> is_file (f (a, (pre @ [c]) @ take (Suc i) cs))" by simp
    qed
    have res: "(if Suc j = length (c # cs) then FileExistsError else NotADirectoryError) =
        (if Suc j' = length cs then FileExistsError else NotADirectoryError)"
      using Suc by simp
    show ?thesis
    proof (cases "f ?k")
      case None
      have mk: "mkdir_key f ?k = Inr ((add_entry f ?k)(?k \<mapsto> Dir []))"
        using None Cons.prems(1) by (intro mkdir_key_ok) (simp_all add: parent_def)
      let ?f = "(add_entry f ?k)(?k \<mapsto> Dir [])"
      have 1: "is_dir (?f (a, pre @ [c]))" by simp
      have far: "(a, (pre @ [c]) @ take (Suc i) cs) \<noteq> ?k" for i
        using ne by (cases cs) simp_all
      have 2: "is_file (?f (a, (pre @ [c]) @ take (Suc j') cs))"
        using fl far by (simp add: add_entry_is_file)
      have 3: "\<forall>i<j'. \<not> is_file (?f (a, (pre @ [c]) @ take (Suc i) cs))"
        using below far by (simp add: add_entry_is_file)
      from Cons.IH [OF 1 j' 2 3] have
        "makedirs_from ?f a (pre @ [c]) cs =
           Inl (if Suc j' = length cs then FileExistsError else NotADirectoryError)" .
      then show ?thesis
        unfolding res by (simp only: makedirs_from.simps None mk option.case sum.case)
    next
      case (Some n)
      with nofile obtain es where d: "f ?k = Some (Dir es)"
        by (cases n) simp_all
      then have 1: "is_dir (f (a, pre @ [c]))" by simp
      from Cons.IH [OF 1 j' fl below] have
        "makedirs_from f a (pre @ [c]) cs =
           Inl (if Suc j' = length cs then FileExistsError else NotADirectoryError)" .
      then show ?thesis
        unfolding res using ne by (simp only: makedirs_from.simps d option.case node.case if_False)
    qed
  qed
qed

lemma os_makedirs_file_above:
  assumes "d \<noteq> []" and "is_dir (fs w (fst (resolve d), []))" and "file_above (fs w) (resolve d)"
  shows "os_makedirs d w = (Inl NotADirectoryError, w)"
proof -
  obtain a cs where r: "resolve d = (a, cs)" by (cases "resolve d")
  define P where "P = (\<lambda>j. Suc j < length cs \<and> is_file (fs w (a, take (Suc j) cs)))"
  from assms(3) r obtain j0 where "1 \<le> j0" "j0 < length cs" "is_file (fs w (a, take j0 cs))"
    by (auto simp: file_above_def list_ex_iff)
  then have "P (j0 - 1)" by (simp add: P_def)
  define j where "j = (LEAST j. P j)"
  have Pj: "P j" unfolding j_def using \<open>P (j0 - 1)\<close> by (rule LeastI)
  have least: "\<not> P i" if "i < j" for i
    using that unfolding j_def by (rule not_less_Least)
  have jl: "j < length cs" and sj: "Suc j \<noteq> length cs"
    and fl: "is_file (fs w (a, [] @ take (Suc j) cs))"
    using Pj by (simp_all add: P_def)
  have below: "\<forall>i<j. \<not> is_file (fs w (a, [] @ take (Suc i) cs))"
  proof (intro allI impI)
    fix i assume "i < j"
    with least have "\<not> P i" by blast
    moreover have "Suc i < length cs" using \<open>i < j\<close> jl by simp
    ultimately show "\<not> is_file (fs w (a, [] @ take (Suc i) cs))" by (simp add: P_def)
  qed
  have root: "is_dir (fs w (a, []))" using assms(2) r by simp
  have "makedirs_from (fs w) a [] cs = Inl NotADirectoryError"
    using makedirs_from_file [OF root jl fl below] sj by simp
  moreover have "cs \<noteq> []" using jl by auto
  ultimately show ?thesis
    using assms(1) r by (simp add: os_makedirs_def)
qed

lemma os_makedirs_file_leaf:
  assumes "d \<noteq> []" and "is_file (fs w (resolve d))" and "no_file_above (fs w) (resolve d)"
  shows "os_makedirs d w = (Inl FileExistsError, w)"
proof -
  obtain a cs where r: "resolve d = (a, cs)" by (cases "resolve d")
  have root: "is_dir (fs w (a, []))"
    using no_file_aboveD(1) [OF assms(3)] r by simp
  have ne: "cs \<noteq> []"
    using root assms(2) r by (auto simp: is_dir_iff is_file_iff)
  then obtain j where j: "length cs = Suc j" by (cases cs) auto
  have jl: "j < length cs" using j by simp
  have fl: "is_file (fs w (a, [] @ take (Suc j) cs))"
    using assms(2) r j by simp
  have below: "\<forall>i<j. \<not> is_file (fs w (a, [] @ take (Suc i) cs))"
    using no_file_aboveD(2) [OF assms(3)] r j by auto
  have "makedirs_from (fs w) a [] cs = Inl FileExistsError"
    using makedirs_from_file [OF root jl fl below] j by simp
  then show ?thesis
    using assms(1) r ne by (simp add: os_makedirs_def)
qed

lemma resolve_Nil: "snd (resolve []) = []"
  by (simp add: resolve_def)

lemma os_mkdir_fails:
  assumes "fs w (resolve d) = None" and "snd (resolve d) \<noteq> []"
    and "\<not> is_dir (fs w (parent (resolve d)))"
  shows "os_mkdir d w =
           (Inl (if is_file (fs w (parent (resolve d))) then NotADirectoryError
                 else FileNotFoundError), w)"
proof -
  have "d \<noteq> []" using assms(2) resolve_Nil by auto
  then show ?thesis
    using assms
    by (auto simp: os_mkdir_def mkdir_key_def is_dir_iff is_file_iff
        split: option.splits node.splits)
qed

lemma os_mkdir_on_file:
  assumes "d \<noteq> []" and "is_file (fs w (resolve d))"
  shows "os_mkdir d w = (Inl FileExistsError, w)"
  using assms by (auto simp: os_mkdir_def mkdir_key_def is_file_iff)

lemma set_up_output_directory_absent:
  assumes "\<not> path_exists (fs w) d"
  shows "set_up_output_directory d w =
           (case os_mkdir d (w\<lparr>trace := trace w @ [Print (spaced [''Creating output directory ->'', d])]\<rparr>) of
              (Inl e, w') \<Rightarrow> (Inl e, w') | (Inr u, w') \<Rightarrow> (Inr (), w'))"
  using assms by (simp add: set_up_output_directory_def os_path_exists_def py_defs)

lemma set_up_outDir_absent:
  assumes "\<not> path_exists (fs w) d"
  shows "set_up_outDir d w =
           (case os_makedirs d (w\<lparr>trace := trace w @ [Print (''OUT DIR '' @ d @ '' -- Does not exist'')]\<rparr>) of
              (Inl e, w') \<Rightarrow> (Inl e, w') | (Inr u, w') \<Rightarrow> (Inr (), w'))"
  using assms by (simp add: set_up_outDir_def os_path_exists_def py_defs)




section \<open>Handing commands to the shell\<close>

lemma with_status_parts:
  "fst (with_status g sh cmd e f) = fst (sh cmd e f)"
  "fst (snd (with_status g sh cmd e f)) = fst (snd (sh cmd e f))"
  by (simp_all add: with_status_def case_prod_beta)

lemma discard_os_system_status:
  "discard (os_system (with_status g sh) cmd) = discard (os_system sh cmd)"
  by (rule ext) (simp add: discard_os_system_run with_status_parts)

lemma callSub_status: "callSub (with_status g sh) cmd = callSub sh cmd"
  by (rule ext) (simp add: callSub_run with_status_parts)

lemma set_geometry_status:
  "set_geometry (with_status g sh) bedpost nf = set_geometry sh bedpost nf"
  by (simp add: set_geometry_def Let_def discard_os_system_status cong: if_cong)

lemma build_status:
  "build_probtrackx_command (with_status g sh) outdir bedpost nf cuda dev =
   build_probtrackx_command sh outdir bedpost nf cuda dev"
  by (simp add: build_probtrackx_command_def discard_os_system_status)

lemma main_ptx_status:
  "main_ptx ap argv available currentDate now (with_status g sh) =
   main_ptx ap argv available currentDate now sh"
  by (simp add: main_ptx_def Let_def main_function_calls_def set_geometry_status build_status
      cong: if_cong option.case_cong)

lemma process_entry_status:
  "process_entry (with_status g sh) SUBJECTS_DIR f_LUT = process_entry sh SUBJECTS_DIR f_LUT"
  by (rule ext)
     (simp add: process_entry_def Let_def surfReg_def parc2seg_def annot2label_def callSub_status
      cong: if_cong)

lemma main_functions_status:
  "main_functions (with_status g sh) SUBJECTS_DIR f_LUT = main_functions sh SUBJECTS_DIR f_LUT"
  by (simp add: main_functions_def process_entry_status)

lemma shell_events_snoc:
  "shell_events (es @ [Print s, Shell c out err]) = shell_events es @ [Shell c out err]"
  by (simp add: shell_events_append)

lemma main_ptx_inherits:
  "emits inherits_streams (main_ptx ap argv available currentDate now sh)"
  by (rule emits_main_ptx_events) simp_all




section \<open>The loop of registerYeoAtlas.py\<close>

lemma always_raises_bind_left: "always_raises m \<Longrightarrow> always_raises (bind m f)"
  unfolding always_raises_def
proof
  fix w
  assume a: "\<forall>w. \<exists>e. fst (m w) = Inl e"
  then obtain e where "fst (m w) = Inl e" by blast
  then show "\<exists>e. fst (bind m f w) = Inl e"
    by (cases "m w") (auto simp: bind_def)
qed

lemma always_raises_bind_right: "(\<And>a. always_raises (f a)) \<Longrightarrow> always_raises (bind m f)"
  unfolding always_raises_def
proof
  fix w
  assume a: "\<And>a. \<forall>w. \<exists>e. fst (f a w) = Inl e"
  show "\<exists>e. fst (bind m f w) = Inl e"
  proof (cases "m w")
    case (Pair r v)
    then show ?thesis
      using a by (cases r) (auto simp: bind_def)
  qed
qed

lemma always_raises_block: "m \<in> set ms \<Longrightarrow> always_raises m \<Longrightarrow> always_raises (block ms)"
proof (induction ms)
  case Nil
  then show ?case by simp
next
  case (Cons x ms)
  show ?case
  proof (cases "m = x")
    case True
    with Cons.prems show ?thesis by (simp add: always_raises_bind_left)
  next
    case False
    with Cons have "always_raises (block ms)" by simp
    then show ?thesis by (simp add: always_raises_bind_right)
  qed
qed

lemma always_raises_for_each:
  "x \<in> set xs \<Longrightarrow> always_raises (body x) \<Longrightarrow> always_raises (for_each xs body)"
proof (induction xs)
  case Nil
  then show ?case by simp
next
  case (Cons y xs)
  show ?case
  proof (cases "x = y")
    case True
    with Cons.prems show ?thesis by (simp add: always_raises_bind_left)
  next
    case False
    with Cons have "always_raises (for_each xs body)" by simp
    then show ?thesis by (simp add: always_raises_bind_right)
  qed
qed

lemma surfReg_raises: "surfReg sh subj subject_dir w =
    (Inl NameError, w\<lparr>trace := trace w @ [Print (''Processing HEMI lh for '' @ subj)]\<rparr>)"
  by (simp add: surfReg_def global_var_def module_globals_def py_defs)

lemma process_entry_raises:
  assumes "subj \<noteq> ''fsaverage6''"
  shows "always_raises (process_entry sh SUBJECTS_DIR f_LUT subj)"
proof -
  have "always_raises (surfReg sh subj d)" for d
    by (simp add: always_raises_def surfReg_raises)
  then show ?thesis
    unfolding process_entry_def Let_def using assms
    by (auto intro!: always_raises_bind_right always_raises_block [where m = "surfReg sh subj d" for d]
        simp del: block.simps)
qed

lemmas yeo_eval = main_functions_def process_entry_def Let_def set_up_outDir_def os_listdir_def
  os_path_exists_def os_makedirs_def mkdir_key_def add_entry_def parent_def callSub_run
  surfReg_raises symlinkCmd_def py_defs path_eval

text \<open>
  C10. \<^verbatim>\<open>main\<close> should process every listed entry whose name is not
  \<^verbatim>\<open>fsaverage6\<close>: directory set-up, LUT placement, surface registration, parc2seg
  and annot2label. The code does otherwise. \<^verbatim>\<open>surfReg\<close> reads
  \<^verbatim>\<open>SUBJECTS_DIR\<close>, \<^verbatim>\<open>CBIG_CODE_DIR\<close> and \<^verbatim>\<open>FSA\<close>, which are locals of
  \<^verbatim>\<open>main\<close> and not names of the module, so it raises \<^verbatim>\<open>NameError\<close>: the
  processing of any entry other than \<^verbatim>\<open>fsaverage6\<close> raises, and so does the loop as
  soon as the listing holds one. On the listing \<^verbatim>\<open>sub01, sub02\<close> the loop stops in
  \<^verbatim>\<open>sub01\<close>'s surface registration: no \<^verbatim>\<open>mri_surf2surf\<close>,
  \<^verbatim>\<open>mri_aparc2aseg\<close> or \<^verbatim>\<open>mri_annotation2label\<close> is run, and \<^verbatim>\<open>sub02\<close> is
  never looked at. (And \<^verbatim>\<open>main\<close> never reaches its loop, see C1.)
\<close>

theorem main_functions_never_completes:
  "(subj \<noteq> ''fsaverage6'' \<longrightarrow>
      (\<exists>e. fst (process_entry sh SUBJECTS_DIR f_LUT subj w) = Inl e)) \<and>
   (SUBJECTS_DIR \<noteq> [] \<and> fs w (resolve SUBJECTS_DIR) = Some (Dir entries) \<and>
    list_ex (\<lambda>s. s \<noteq> ''fsaverage6'') entries \<longrightarrow>
      (\<exists>e. fst (main_functions sh SUBJECTS_DIR f_LUT w) = Inl e))"
proof (intro conjI impI)
  assume "subj \<noteq> ''fsaverage6''"
  then show "\<exists>e. fst (process_entry sh SUBJECTS_DIR f_LUT subj w) = Inl e"
    using process_entry_raises by (simp add: always_raises_def)
next
  assume h: "SUBJECTS_DIR \<noteq> [] \<and> fs w (resolve SUBJECTS_DIR) = Some (Dir entries) \<and>
    list_ex (\<lambda>s. s \<noteq> ''fsaverage6'') entries"
  then obtain s where s: "s \<in> set entries" "s \<noteq> ''fsaverage6''"
    by (auto simp: list_ex_iff)
  have "always_raises (for_each entries (process_entry sh SUBJECTS_DIR f_LUT))"
    using s by (intro always_raises_for_each [of s] process_entry_raises)
  moreover have "main_functions sh SUBJECTS_DIR f_LUT w =
      for_each entries (process_entry sh SUBJECTS_DIR f_LUT) w"
    using h by (simp add: main_functions_def os_listdir_def bind_def)
  ultimately show "\<exists>e. fst (main_functions sh SUBJECTS_DIR f_LUT w) = Inl e"
    by (simp add: always_raises_def)
qed

theorem main_functions_never_completes_witness:
  "''sub01'' \<noteq> ''fsaverage6'' \<and>
   ''/subjects'' \<noteq> [] \<and>
   [(True, []) \<mapsto> Dir [''subjects''], (True, [''subjects'']) \<mapsto> Dir [''sub01'', ''sub02''],
    (True, [''subjects'', ''sub01'']) \<mapsto> Dir [], (True, [''subjects'', ''sub02'']) \<mapsto> Dir []]
      (resolve ''/subjects'') = Some (Dir [''sub01'', ''sub02'']) \<and>
   list_ex (\<lambda>s. s \<noteq> ''fsaverage6'') [''sub01'', ''sub02''] \<and>
   fst (main_functions (\<lambda>c e f. (f, [], 0)) ''/subjects'' ''/atlas/LUT.txt''
     \<lparr>fs = [(True, []) \<mapsto> Dir [''subjects''], (True, [''subjects'']) \<mapsto> Dir [''sub01'', ''sub02''],
             (True, [''subjects'', ''sub01'']) \<mapsto> Dir [], (True, [''subjects'', ''sub02'']) \<mapsto> Dir []],
       env = Map.empty, trace = []\<rparr>) = Inl NameError \<and>
   trace (snd (main_functions (\<lambda>c e f. (f, [], 0)) ''/subjects'' ''/atlas/LUT.txt''
     \<lparr>fs = [(True, []) \<mapsto> Dir [''subjects''], (True, [''subjects'']) \<mapsto> Dir [''sub01'', ''sub02''],
             (True, [''subjects'', ''sub01'']) \<mapsto> Dir [], (True, [''subjects'', ''sub02'']) \<mapsto> Dir []],
       env = Map.empty, trace = []\<rparr>)) =
     [Print ''subj'',
      Print ''PROCESSING SUBJECT: sub01'',
      Print ''OUT DIR /subjects/sub01/Schaefer2018_labels -- Does not exist'',
      MakeDirs ''/subjects/sub01/Schaefer2018_labels'',
      Print ''Placing copy of Yeo Atlas LUT in /subjects/sub01'',
      Print ''os.symlink(/atlas/LUT.txt, os.path.join(/subjects/sub01,Schaefer2018_1000Parcels_7Networks_order_LUT.txt'',
      Shell ''os.symlink(/atlas/LUT.txt, os.path.join(/subjects/sub01,Schaefer2018_1000Parcels_7Networks_order_LUT.txt'' Pipe ToStdout,
      Shell ''os.symlink(/atlas/LUT.txt, os.path.join(/subjects/sub01,Schaefer2018_1000Parcels_7Networks_order_LUT.txt'' DevNull ToStdout,
      Print ''Processing HEMI lh for sub01'']"
  using main_functions_never_completes [of "''sub01''" "\<lambda>c e f. (f, [], 0)" "''/subjects''"
      "''/atlas/LUT.txt''"
      "\<lparr>fs = [(True, []) \<mapsto> Dir [''subjects''], (True, [''subjects'']) \<mapsto> Dir [''sub01'', ''sub02''],
             (True, [''subjects'', ''sub01'']) \<mapsto> Dir [], (True, [''subjects'', ''sub02'']) \<mapsto> Dir []],
       env = Map.empty, trace = []\<rparr>" "[''sub01'', ''sub02'']"]
  by (simp add: yeo_eval)

section \<open>The commands handed to the shell\<close>

lemma wrapped_commands_invoke:
  "invokes_wrapped_binary (parc2segCmd subj d)"
  "invokes_wrapped_binary (annot2labelCmd subj hemi outdir)"
  "invokes_wrapped_binary (''mri_surf2surf --hemi '' @ rest)"
  "invokes_wrapped_binary (''fslcpgeom '' @ rest)"
  "invokes_wrapped_binary (probtrackxCommand outdir bedpost net cuda)"
  by (simp_all add: invokes_wrapped_binary_def wrapped_binaries_def invokes_def command_word_def
      parc2segCmd_def annot2labelCmd_def probtrackxCommand_def probtrackx_version_def
      endswith_def sep_def suffix_Cons)

lemma shell_cmds_wrapped:
  "list_all runs_wrapped_binary es \<Longrightarrow> list_all invokes_wrapped_binary (shell_cmds es)"
  by (induction es rule: shell_cmds.induct) simp_all

lemma main_ptx_wrapped:
  "emits runs_wrapped_binary (main_ptx ap argv available currentDate now sh)"
proof (rule emits_main_ptx_events)
  show "runs_wrapped_binary (Shell (''fslcpgeom '' @ m @ '' '' @ l) Inherit Inherit)" for m l
    unfolding runs_wrapped_binary.simps by (rule wrapped_commands_invoke)
  show "runs_wrapped_binary (Shell (probtrackxCommand outdir b n c) Inherit Inherit)"
    for outdir b n c
    unfolding runs_wrapped_binary.simps by (rule wrapped_commands_invoke)
qed simp_all

lemma main_yeo_run: "main_yeo argv sh w = (Inl AttributeError, w)"
  by (simp add: parse_args_yeo_def main_yeo_def getattr_def py_defs)

text \<open>
  The LUT-placement command that the loop of registerYeoAtlas.py's \<^verbatim>\<open>main\<close> builds
  (its lines 108 to 110) is the text of a Python call, \<^verbatim>\<open>os.symlink(...\<close>, and the
  loop body hands it to the shell through \<^verbatim>\<open>callSub\<close>: it invokes none of the wrapped
  binaries. No run of the script gets there, since \<^verbatim>\<open>main\<close> stops before its loop
  (\<open>main_yeo_run\<close>): the slip is in the code and shows in no run.
\<close>

lemma symlinkCmd_is_python_text:
  "symlinkCmd ''/atlas/LUT.txt'' (join ''/subjects'' ''sub01'') =
     ''os.symlink(/atlas/LUT.txt, os.path.join(/subjects/sub01,Schaefer2018_1000Parcels_7Networks_order_LUT.txt'' \<and>
   \<not> invokes_wrapped_binary
       ''os.symlink(/atlas/LUT.txt, os.path.join(/subjects/sub01,Schaefer2018_1000Parcels_7Networks_order_LUT.txt'' \<and>
   shell_cmds (trace (snd (process_entry (\<lambda>c e f. (f, [], 0)) ''/subjects'' ''/atlas/LUT.txt'' ''sub01''
     \<lparr>fs = [(True, []) \<mapsto> Dir [''subjects''], (True, [''subjects'']) \<mapsto> Dir [''sub01''],
             (True, [''subjects'', ''sub01'']) \<mapsto> Dir []],
       env = Map.empty, trace = []\<rparr>))) =
     [''os.symlink(/atlas/LUT.txt, os.path.join(/subjects/sub01,Schaefer2018_1000Parcels_7Networks_order_LUT.txt'',
      ''os.symlink(/atlas/LUT.txt, os.path.join(/subjects/sub01,Schaefer2018_1000Parcels_7Networks_order_LUT.txt'']"
  by (simp add: yeo_eval invokes_wrapped_binary_def wrapped_binaries_def invokes_def
      command_word_def)


section \<open>What the wrapper itself writes\<close>

lemma emits_for_each_mem:
  "(\<And>x. x \<in> set xs \<Longrightarrow> emits P (body x)) \<Longrightarrow> emits P (for_each xs body)"
  by (induction xs) auto

lemma emits_global_var [intro!, simp]: "emits P (global_var name)"
  by (simp add: global_var_def split: option.splits)

lemma emits_callSub [intro!]:
  "P (Shell cmd Pipe ToStdout) \<Longrightarrow> P (Shell cmd DevNull ToStdout) \<Longrightarrow> (\<And>s. P (Print s)) \<Longrightarrow>
   emits P (callSub sh cmd)"
  unfolding callSub_def popen_lines_def subprocess_call_def
  by (intro emits_bind emits_run_shell emits_case_prod emits_ret emits_for_each emits_print
      emits_discard) simp_all

lemma emits_process_entry:
  assumes "join (join SUBJECTS_DIR subj) ''Schaefer2018_labels'' \<in> set ps"
  shows "emits (writes_within ps) (process_entry sh SUBJECTS_DIR f_LUT subj)"
  unfolding process_entry_def Let_def set_up_outDir_def surfReg_def parc2seg_def annot2label_def
  using assms by (auto simp del: block.simps for_each.simps)

lemma emits_get_roi_list_file:
  "(\<And>c. P (WriteFile (join roi_path (subj @ ''_network_'' @ date @ ''.txt'')) c)) \<Longrightarrow>
   emits P (get_roi_list roi_path subj date)"
  unfolding get_roi_list_def Let_def by (intro emits_bind emits_os_listdir emits_write_file emits_ret)

lemma emits_main_ptx_writes:
  assumes "ap ptx_parser argv = Inr args"
  shows "emits (writes_within
           [join (output_directory args) (subject args @ ''.probtrackx.network.'' @ currentDate),
            join (input_directory args) (subject args @ ''_network_'' @ currentDate @ ''.txt'')])
         (main_ptx ap argv available currentDate now sh)"
proof -
  let ?out = "join (output_directory args) (subject args @ ''.probtrackx.network.'' @ currentDate)"
  let ?P = "writes_within [?out,
      join (input_directory args) (subject args @ ''_network_'' @ currentDate @ ''.txt'')]"
  have pa: "parse_args_ptx ap argv = ret args"
    using assms by (simp add: parse_args_ptx_def ret_def)
  have dc: "emits (writes_within ps) (device_configuration use_gpu available)" for ps use_gpu
    unfolding device_configuration_def
    by (intro emits_bind emits_if emits_case_prod emits_set_device emits_print
        emits_console_success emits_ret) simp_all
  have env: "emits (writes_within ps) set_up_environment" for ps
    unfolding set_up_environment_def print_environ_def
    by (auto simp del: block.simps)
  have out: "emits (writes_within ps) (set_up_output_directory d)" if "d \<in> set ps" for ps d
    unfolding set_up_output_directory_def
    using that by (auto simp del: block.simps)
  have sg: "emits (writes_within ps) (set_geometry sh b nf)" for ps b nf
    unfolding set_geometry_def Let_def
    by (auto simp del: block.simps for_each.simps)
  have bp: "emits (writes_within ps) (build_probtrackx_command sh outdir b nf cuda dev)"
    for ps outdir b nf cuda dev
    unfolding build_probtrackx_command_def
    by (auto simp del: block.simps)
  have calls: "emits (writes_within ps) (main_function_calls sh now args currentDate outdir cuda dev)"
    if "join (input_directory args) (subject args @ ''_network_'' @ currentDate @ ''.txt'') \<in> set ps"
    for ps outdir cuda dev
    unfolding main_function_calls_def
    using that by (auto simp del: block.simps intro!: emits_get_roi_list_file sg bp)
  show ?thesis
    unfolding main_ptx_def pa bind_ret Let_def
    by (intro emits_bind emits_case_prod emits_block dc) (auto intro!: env out calls)
qed

lemmas ptx_eval = main_ptx_def parse_args_ptx_def device_configuration_def set_up_environment_def
  print_environ_def set_up_output_directory_def main_function_calls_def get_roi_list_def
  build_probtrackx_command_def os_system_def run_shell_def os_mkdir_def mkdir_key_def add_entry_def
  parent_def write_file_def os_listdir_def os_path_exists_def str_opt_def str_device_def
  spaced_def py_defs path_eval Let_def written_def write_outcome_def utf8_eval LF_def

text \<open>
  C5, as stated: the wrapper code itself creates no output files or directories. It does:
  in the run of runProbtrackx2GPU.py below, the shell commands leave the file system
  untouched, and yet the output directory and the network text file, both absent before,
  exist afterwards, made by \<^verbatim>\<open>os.mkdir\<close> and by \<^verbatim>\<open>get_roi_list\<close>.
\<close>

theorem wrapper_creates_directory_and_file:
  "[(True, []) \<mapsto> Dir [''out'', ''rois''], (True, [''out'']) \<mapsto> Dir [],
    (True, [''rois'']) \<mapsto> Dir [''a.nii'']] (True, [''out'', ''s01.probtrackx.network.20230207'']) = None \<and>
   [(True, []) \<mapsto> Dir [''out'', ''rois''], (True, [''out'']) \<mapsto> Dir [],
    (True, [''rois'']) \<mapsto> Dir [''a.nii'']] (True, [''rois'', ''s01_network_20230207.txt'']) = None \<and>
   fs_writes (trace (snd (main_ptx
     (\<lambda>_ _. Inr \<lparr>input_directory = ''/rois'', subject = ''s01'', output_directory = ''/out'',
           bedpost_directory = ''/data/bedpostx'', network = None, no_geometry_fix = True,
           cpu = True\<rparr>)
     [''-i'', ''/rois'', ''-s'', ''s01'', ''-o'', ''/out'', ''-b'', ''/data/bedpostx'', ''-g'', ''-c'']
     False ''20230207'' ''2023-02-07 10:00:00'' (\<lambda>c e f. (f, [], 0))
     \<lparr>fs = [(True, []) \<mapsto> Dir [''out'', ''rois''], (True, [''out'']) \<mapsto> Dir [],
             (True, [''rois'']) \<mapsto> Dir [''a.nii'']], env = Map.empty, trace = []\<rparr>))) =
     [MkDir ''/out/s01.probtrackx.network.20230207'',
      WriteFile ''/rois/s01_network_20230207.txt'' (''/rois/a.nii'' @ [LF])] \<and>
   fs (snd (main_ptx
     (\<lambda>_ _. Inr \<lparr>input_directory = ''/rois'', subject = ''s01'', output_directory = ''/out'',
           bedpost_directory = ''/data/bedpostx'', network = None, no_geometry_fix = True,
           cpu = True\<rparr>)
     [''-i'', ''/rois'', ''-s'', ''s01'', ''-o'', ''/out'', ''-b'', ''/data/bedpostx'', ''-g'', ''-c'']
     False ''20230207'' ''2023-02-07 10:00:00'' (\<lambda>c e f. (f, [], 0))
     \<lparr>fs = [(True, []) \<mapsto> Dir [''out'', ''rois''], (True, [''out'']) \<mapsto> Dir [],
             (True, [''rois'']) \<mapsto> Dir [''a.nii'']], env = Map.empty, trace = []\<rparr>))
     (True, [''out'', ''s01.probtrackx.network.20230207'']) = Some (Dir []) \<and>
   fs (snd (main_ptx
     (\<lambda>_ _. Inr \<lparr>input_directory = ''/rois'', subject = ''s01'', output_directory = ''/out'',
           bedpost_directory = ''/data/bedpostx'', network = None, no_geometry_fix = True,
           cpu = True\<rparr>)
     [''-i'', ''/rois'', ''-s'', ''s01'', ''-o'', ''/out'', ''-b'', ''/data/bedpostx'', ''-g'', ''-c'']
     False ''20230207'' ''2023-02-07 10:00:00'' (\<lambda>c e f. (f, [], 0))
     \<lparr>fs = [(True, []) \<mapsto> Dir [''out'', ''rois''], (True, [''out'']) \<mapsto> Dir [],
             (True, [''rois'']) \<mapsto> Dir [''a.nii'']], env = Map.empty, trace = []\<rparr>))
     (True, [''rois'', ''s01_network_20230207.txt'']) = Some (File (''/rois/a.nii'' @ [LF]))"
  by (simp add: ptx_eval)

text \<open>
  C5, amended. The only changes the wrapper itself makes to the file system are, in a run
  of runProbtrackx2GPU.py, at the output directory
  \<^verbatim>\<open><output_directory>/<subject>.probtrackx.network.<date>\<close> and at the network text
  file \<^verbatim>\<open><input_directory>/<subject>_network_<date>.txt\<close>, and, in the loop of
  registerYeoAtlas.py, at the directories \<^verbatim>\<open>Schaefer2018_labels\<close> of the listed
  entries; every other artifact comes from the wrapped binaries.
\<close>

theorem wrapper_writes:
  "(ap ptx_parser argv = Inr args \<longrightarrow>
      (\<exists>es. trace (snd (main_ptx ap argv available currentDate now sh w)) = trace w @ es \<and>
            list_all (writes_within
              [join (output_directory args) (subject args @ ''.probtrackx.network.'' @ currentDate),
               join (input_directory args) (subject args @ ''_network_'' @ currentDate @ ''.txt'')])
              es)) \<and>
   (\<exists>es. trace (snd (main_functions sh SUBJECTS_DIR f_LUT w)) = trace w @ es \<and>
         list_all (writes_within
           (map (\<lambda>subj. join (join SUBJECTS_DIR subj) ''Schaefer2018_labels'')
              (listing (fs w) SUBJECTS_DIR))) es)"
proof (intro conjI impI)
  assume "ap ptx_parser argv = Inr args"
  then show "\<exists>es. trace (snd (main_ptx ap argv available currentDate now sh w)) = trace w @ es \<and>
            list_all (writes_within
              [join (output_directory args) (subject args @ ''.probtrackx.network.'' @ currentDate),
               join (input_directory args) (subject args @ ''_network_'' @ currentDate @ ''.txt'')])
              es"
    by (intro emitsD emits_main_ptx_writes)
next
  let ?ps = "map (\<lambda>subj. join (join SUBJECTS_DIR subj) ''Schaefer2018_labels'')
              (listing (fs w) SUBJECTS_DIR)"
  show "\<exists>es. trace (snd (main_functions sh SUBJECTS_DIR f_LUT w)) = trace w @ es \<and>
         list_all (writes_within ?ps) es"
  proof (cases "os_listdir SUBJECTS_DIR w")
    case (Pair r v)
    show ?thesis
    proof (cases r)
      case (Inl e)
      with Pair have "main_functions sh SUBJECTS_DIR f_LUT w = (Inl e, v)" and "v = w"
        by (auto simp: main_functions_def bind_def os_listdir_def split: if_splits option.splits node.splits)
      then show ?thesis by simp
    next
      case (Inr ns)
      with Pair have l: "listing (fs w) SUBJECTS_DIR = ns" and v: "v = w"
        by (auto simp: listing_def os_listdir_def split: if_splits option.splits node.splits)
      have e: "emits (writes_within ?ps) (for_each ns (process_entry sh SUBJECTS_DIR f_LUT))"
        by (intro emits_for_each_mem emits_process_entry) (simp add: l)
      have eq: "main_functions sh SUBJECTS_DIR f_LUT w =
          for_each ns (process_entry sh SUBJECTS_DIR f_LUT) w"
        using Pair Inr v by (simp add: main_functions_def bind_def)
      show ?thesis
        unfolding eq by (rule emitsD [OF e])
    qed
  qed
qed

theorem wrapper_writes_witness:
  "(\<lambda>_ _. Inr \<lparr>input_directory = ''/rois'', subject = ''s01'', output_directory = ''/out'',
           bedpost_directory = ''/data/bedpostx'', network = None, no_geometry_fix = True,
           cpu = True\<rparr>) ptx_parser
     [''-i'', ''/rois'', ''-s'', ''s01'', ''-o'', ''/out'', ''-b'', ''/data/bedpostx'', ''-g'', ''-c''] =
     (Inr \<lparr>input_directory = ''/rois'', subject = ''s01'', output_directory = ''/out'',
           bedpost_directory = ''/data/bedpostx'', network = None, no_geometry_fix = True,
           cpu = True\<rparr> :: py_error + ptx_args) \<and>
   list_all (writes_within [''/out/s01.probtrackx.network.20230207'', ''/rois/s01_network_20230207.txt''])
     (trace (snd (main_ptx
       (\<lambda>_ _. Inr \<lparr>input_directory = ''/rois'', subject = ''s01'', output_directory = ''/out'',
           bedpost_directory = ''/data/bedpostx'', network = None, no_geometry_fix = True,
           cpu = True\<rparr>)
       [''-i'', ''/rois'', ''-s'', ''s01'', ''-o'', ''/out'', ''-b'', ''/data/bedpostx'', ''-g'', ''-c'']
       False ''20230207'' ''2023-02-07 10:00:00'' (\<lambda>c e f. (f, [], 0))
       \<lparr>fs = [(True, []) \<mapsto> Dir [''out'', ''rois''], (True, [''out'']) \<mapsto> Dir [],
               (True, [''rois'']) \<mapsto> Dir [''a.nii'']], env = Map.empty, trace = []\<rparr>)))"
  using wrapper_writes [of
      "\<lambda>_ _. Inr \<lparr>input_directory = ''/rois'', subject = ''s01'', output_directory = ''/out'',
           bedpost_directory = ''/data/bedpostx'', network = None, no_geometry_fix = True,
           cpu = True\<rparr>"
      "[''-i'', ''/rois'', ''-s'', ''s01'', ''-o'', ''/out'', ''-b'', ''/data/bedpostx'', ''-g'', ''-c'']"
      "\<lparr>input_directory = ''/rois'', subject = ''s01'', output_directory = ''/out'',
           bedpost_directory = ''/data/bedpostx'', network = None, no_geometry_fix = True,
           cpu = True\<rparr>"
      False "''20230207''" "''2023-02-07 10:00:00''" "\<lambda>c e f. (f, [], 0)"
      "\<lparr>fs = [(True, []) \<mapsto> Dir [''out'', ''rois''], (True, [''out'']) \<mapsto> Dir [],
               (True, [''rois'']) \<mapsto> Dir [''a.nii'']], env = Map.empty, trace = []\<rparr>"]
  by (simp add: path_eval)

end
